theory Spec2Isabelle
  imports Complex_Main
begin

text \<open>
  A model of the Elasticsearch MCP server: the configuration of the teams, the
  service that builds the queries and reads the answers of the document store
  (\<open>ElasticsearchService\<close>), and the handlers of its five tools. Pure functions of the
  source are functions here; a method of the service takes the state of the service
  and returns it with its outcome, an error thrown being the left summand; the clock
  and the store are parameters.
\<close>

section \<open>Key-term extraction (search-exceptions tool, \<open>extractKeyTerms\<close>)\<close>

text \<open>
  Strings are lists of 8-bit characters, read as the code points U+0000 to U+00FF.
  The three character classes below are the ones the source's string operations use
  on that range: \<open>toLowerCase\<close>, the regular-expression class \<open>\w\<close> and the class
  \<open>\s\<close> (tab, line feed, vertical tab, form feed, carriage return, space, no-break
  space).
\<close>

definition upperChars :: string where
  "upperChars = ''ABCDEFGHIJKLMNOPQRSTUVWXYZ''"

definition lowerChars :: string where
  "lowerChars = ''abcdefghijklmnopqrstuvwxyz''"

definition isSpace :: "char \<Rightarrow> bool" where
  "isSpace c = ((of_char c :: nat) \<in> {9, 10, 11, 12, 13, 32, 160})"

definition isWord :: "char \<Rightarrow> bool" where
  "isWord c = (c \<in> set (upperChars @ lowerChars @ ''0123456789_''))"

definition toLowerChar :: "char \<Rightarrow> char" where
  "toLowerChar c =
     (case map_of (zip upperChars lowerChars) c of
        Some l \<Rightarrow> l
      | None \<Rightarrow>
          (let n = (of_char c :: nat)
           in if 192 \<le> n \<and> n \<le> 222 \<and> n \<noteq> 215 then char_of (n + 32) else c))"

definition toLowerCase :: "string \<Rightarrow> string" where
  "toLowerCase s = map toLowerChar s"

text \<open>\<^verbatim>\<open>.replace(/[^\w\s]/g, ' ')\<close>\<close>

definition replaceSpecial :: "string \<Rightarrow> string" where
  "replaceSpecial s = map (\<lambda>c. if \<not> isWord c \<and> \<not> isSpace c then CHR '' '' else c) s"

text \<open>
  \<^verbatim>\<open>.split(/\s+/)\<close>: every maximal run of white space is one separator; a string that
  starts or ends with white space gets an empty first or last piece, and the empty
  string splits into one empty piece. The flag says that the scan is inside a
  separator; \<open>cur\<close> is the piece read so far.
\<close>

fun splitWs :: "bool \<Rightarrow> string \<Rightarrow> string \<Rightarrow> string list" where
  "splitWs insep cur [] = [cur]"
| "splitWs insep cur (c # cs) =
     (if isSpace c
      then (if insep then splitWs True cur cs else cur # splitWs True [] cs)
      else splitWs False (cur @ [c]) cs)"

definition splitWhitespace :: "string \<Rightarrow> string list" where
  "splitWhitespace s = splitWs False [] s"

text \<open>\<^verbatim>\<open>arr.indexOf(term)\<close>: the first index of the term, \<open>-1\<close> when it is absent.\<close>

fun indexOf :: "'a list \<Rightarrow> 'a \<Rightarrow> int" where
  "indexOf [] x = -1"
| "indexOf (y # ys) x =
     (if x = y then 0 else (let r = indexOf ys x in if r < 0 then -1 else r + 1))"

text \<open>\<^verbatim>\<open>.filter((term, index, arr) => arr.indexOf(term) === index)\<close>\<close>

definition removeDuplicates :: "'a list \<Rightarrow> 'a list" where
  "removeDuplicates arr =
     map fst (filter (\<lambda>(term, index). indexOf arr term = int index)
                     (zip arr [0..<length arr]))"

definition stopWords :: "string list" where
  "stopWords =
     [''the'', ''is'', ''at'', ''of'', ''on'', ''in'', ''to'', ''for'', ''and'', ''or'',
      ''but'', ''be'', ''been'', ''have'', ''has'', ''had'', ''do'', ''does'', ''did'',
      ''will'', ''would'', ''should'', ''could'', ''can'', ''may'', ''might'', ''must'',
      ''shall'']"

text \<open>The pieces of the lower-cased, cleaned message, and those that pass the first filter.\<close>

definition messagePieces :: "string \<Rightarrow> string list" where
  "messagePieces message = splitWhitespace (replaceSpecial (toLowerCase message))"

definition candidateTerms :: "string \<Rightarrow> string list" where
  "candidateTerms message =
     filter (\<lambda>term. length term > 2 \<and> term \<notin> set stopWords) (messagePieces message)"

definition extractKeyTerms :: "string \<Rightarrow> string list" where
  "extractKeyTerms message = take 5 (removeDuplicates (candidateTerms message))"

section \<open>Configuration (types, \<open>ConfigManager\<close>)\<close>

text \<open>
  Objects read from the configuration file are association lists from their own keys to
  their values; an optional field is an \<open>option\<close>.
\<close>

record ElasticsearchEnvironmentConfig =
  node :: string
  apiKey :: "string option"
  username :: "string option"
  password :: "string option"
  maxRetries :: "nat option"
  requestTimeout :: "nat option"

record IndexPatterns =
  exceptions :: "string list"
  applications :: "string list"
  logs :: "string list option"

record TeamConfig =
  teamId :: string
  teamName :: string
  defaultEnvironment :: "string option"
  environments :: "(string \<times> ElasticsearchEnvironmentConfig) list"
  indexPatterns :: IndexPatterns
  maxSearchResults :: "nat option"
  allowedOperations :: "string list option"

record MultiTeamConfig =
  teams :: "(string \<times> TeamConfig) list"

text \<open>
  Every failure of the source is a plain \<open>Error\<close> with a message; the constructors name
  the places that throw. The first three are the configuration errors.
\<close>

datatype Error =
    TeamNotFound string
  | NoEnvironment string
  | EnvironmentNotFound string string
  | OperationNotAllowed string string
  | OperationFailed string string


definition getTeamConfig :: "MultiTeamConfig \<Rightarrow> string \<Rightarrow> Error + TeamConfig" where
  "getTeamConfig config tid =
     (case map_of (teams config) tid of
        None \<Rightarrow> Inl (TeamNotFound tid)
      | Some teamConfig \<Rightarrow> Inr teamConfig)"

text \<open>Truthiness of an optional string, and \<^verbatim>\<open>a || b\<close> on optional strings.\<close>

definition truthy :: "string option \<Rightarrow> bool" where
  "truthy a = (case a of None \<Rightarrow> False | Some v \<Rightarrow> v \<noteq> [])"

definition orElse :: "string option \<Rightarrow> string option \<Rightarrow> string option" where
  "orElse a b = (if truthy a then a else b)"

text \<open>\<^verbatim>\<open>n || d\<close> on an optional number.\<close>

definition numberOr :: "nat option \<Rightarrow> nat \<Rightarrow> nat" where
  "numberOr n d = (case n of None \<Rightarrow> d | Some v \<Rightarrow> if v = 0 then d else v)"

text \<open>
  The check every gated tool makes:
  \<^verbatim>\<open>teamConfig.allowedOperations && !teamConfig.allowedOperations.includes(op)\<close>.
\<close>

definition operationBlocked :: "TeamConfig \<Rightarrow> string \<Rightarrow> bool" where
  "operationBlocked teamConfig operation =
     (case allowedOperations teamConfig of
        None \<Rightarrow> False
      | Some ops \<Rightarrow> operation \<notin> set ops)"

section \<open>Dates (\<open>date-fns\<close> 2.x, as \<open>package.json\<close> requires)\<close>

text \<open>
  An instant is its number of milliseconds since the epoch. \<open>subDays\<close> of the library
  truncates its amount to an integer (\<open>toInteger\<close>: towards zero) and moves the date by
  that many calendar days; a calendar day is taken as 24 hours (no change of the
  clock inside the window).
\<close>

definition toInteger :: "rat \<Rightarrow> int" where
  "toInteger number = (if number < 0 then \<lceil>number\<rceil> else \<lfloor>number\<rfloor>)"

definition addDays :: "int \<Rightarrow> rat \<Rightarrow> int" where
  "addDays date dirtyAmount =
     (let amount = toInteger dirtyAmount
      in if amount = 0 then date else date + amount * 86400000)"

definition subDays :: "int \<Rightarrow> rat \<Rightarrow> int" where
  "subDays date dirtyAmount =
     (let amount = toInteger dirtyAmount in addDays date (of_int (- amount)))"

section \<open>Queries and the document store\<close>

text \<open>
  A bound of a range filter is either the caller's string, passed on as it is, or
  \<^verbatim>\<open>format(date, "yyyy-MM-dd'T'HH:mm:ss.SSSxxx")\<close> of an instant.
\<close>

datatype Bound = Verbatim string | Formatted int

datatype Clause =
    Range Bound "Bound option"
  | MultiMatch string "string list" string
  | Term string string
  | Exists string
  | ShouldMatch "Clause list" nat

record BoolQuery =
  must :: "Clause list"
  filter' :: "Clause list"

text \<open>
  A request: the index patterns and the body. Of the aggregations of a body only the
  names are kept.
\<close>

record SearchParams =
  index :: "string list"
  body_query :: BoolQuery
  body_size :: nat
  body_source :: "string list"
  body_aggs :: "string list"

datatype SourceValue = Str string | Arr "string list"

record Hit =
  hit_id :: string
  hit_index :: string
  hit_source :: "(string \<times> SourceValue) list"

record ClientAuth =
  auth_apiKey :: "string option"
  auth_username :: "string option"
  auth_password :: "string option"

record ClientOptions =
  client_node :: string
  client_maxRetries :: nat
  client_requestTimeout :: nat
  client_auth :: "ClientAuth option"

text \<open>One bucket of the hourly histogram.\<close>

record HistogramBucket =
  key_as_string :: string
  doc_count :: nat

text \<open>One bucket of the \<open>top_exceptions\<close> aggregation of \<open>analyzeExceptions\<close>.\<close>

record TopExceptionBucket =
  teb_key :: string
  teb_doc_count :: nat
  teb_first_seen :: string
  teb_last_seen :: string
  teb_affected_services :: "string list"

record AnalysisAggregations =
  agg_total_count :: nat
  agg_unique_exceptions :: nat
  agg_top_exceptions :: "TopExceptionBucket list"
  agg_time_distribution :: "HistogramBucket list"

record MessageCount =
  mc_message :: string
  mc_count :: nat

text \<open>One bucket of the \<open>services\<close> aggregation of \<open>getServiceExceptionTrends\<close>.\<close>

record ServiceBucket =
  sb_key :: string
  sb_total_exceptions :: nat
  sb_first_half :: nat
  sb_second_half :: nat
  sb_top_exceptions :: "MessageCount list"

text \<open>The answer to the request of \<open>analyzeSpecificException\<close>.\<close>

record SpecificAnswer =
  sa_hits :: "Hit list"
  sa_total :: "nat option"
  sa_affected_services :: "string list"
  sa_time_distribution :: "HistogramBucket list"

text \<open>
  The document store is outside the repository. It answers a search with an error
  message or with the documents that match, in the order asked for; a ping with an
  error message or a truth value; and the three requests with aggregations with an
  error message or the aggregations asked for (the \<open>services\<close> aggregation may be
  missing). The client hands back at most \<open>size\<close> hits of a search.
\<close>

record Store =
  matching :: "ClientOptions \<Rightarrow> SearchParams \<Rightarrow> string + Hit list"
  ping :: "ClientOptions \<Rightarrow> string + bool"
  analysisAnswer :: "ClientOptions \<Rightarrow> SearchParams \<Rightarrow> string + AnalysisAggregations"
  specificAnswer :: "ClientOptions \<Rightarrow> SearchParams \<Rightarrow> string + SpecificAnswer"
  servicesAnswer :: "ClientOptions \<Rightarrow> SearchParams \<Rightarrow> string + ServiceBucket list option"

definition client_search :: "Store \<Rightarrow> ClientOptions \<Rightarrow> SearchParams \<Rightarrow> string + Hit list" where
  "client_search store client searchParams =
     (case matching store client searchParams of
        Inl e \<Rightarrow> Inl e
      | Inr hits \<Rightarrow> Inr (take (body_size searchParams) hits))"

datatype StoreCall = SearchCall ClientOptions SearchParams | PingCall ClientOptions

section \<open>\<open>ElasticsearchService\<close>: clients\<close>

text \<open>
  The state of a service object: its map of clients (in insertion order), and the
  calls it has sent to the store so far.
\<close>

record ServiceState =
  clients :: "(string \<times> ClientOptions) list"
  calls :: "StoreCall list"

definition newService :: ServiceState where
  "newService = \<lparr>clients = [], calls = []\<rparr>"

definition getClientKey :: "string \<Rightarrow> string \<Rightarrow> string" where
  "getClientKey tid env = tid @ '':'' @ env"

definition createClient :: "ElasticsearchEnvironmentConfig \<Rightarrow> ClientOptions" where
  "createClient config =
     \<lparr>client_node = node config,
      client_maxRetries = numberOr (maxRetries config) 3,
      client_requestTimeout = numberOr (requestTimeout config) 30000,
      client_auth =
        (if truthy (apiKey config)
         then Some \<lparr>auth_apiKey = apiKey config, auth_username = None, auth_password = None\<rparr>
         else if truthy (username config) \<and> truthy (password config)
         then Some \<lparr>auth_apiKey = None, auth_username = username config,
                     auth_password = password config\<rparr>
         else None)\<rparr>"

definition getClient ::
  "MultiTeamConfig \<Rightarrow> ServiceState \<Rightarrow> string \<Rightarrow> string option
     \<Rightarrow> Error + (ServiceState \<times> ClientOptions)" where
  "getClient config s tid environment =
     (case getTeamConfig config tid of
        Inl e \<Rightarrow> Inl e
      | Inr teamConfig \<Rightarrow>
          (case orElse environment (defaultEnvironment teamConfig) of
             None \<Rightarrow> Inl (NoEnvironment tid)
           | Some env \<Rightarrow>
               if env = [] then Inl (NoEnvironment tid)
               else (case map_of (environments teamConfig) env of
                       None \<Rightarrow> Inl (EnvironmentNotFound env tid)
                     | Some envConfig \<Rightarrow>
                         (let clientKey = getClientKey tid env
                          in (case map_of (clients s) clientKey of
                                None \<Rightarrow>
                                  (let client = createClient envConfig
                                   in Inr (s\<lparr>clients := clients s @ [(clientKey, client)]\<rparr>,
                                           client))
                              | Some client \<Rightarrow> Inr (s, client))))))"

section \<open>\<open>ElasticsearchService\<close>: searches\<close>

record TimeRange =
  range_start :: string
  range_end :: string

record SearchFilters =
  environment :: "string option"
  timeRange :: "TimeRange option"
  timeframe :: "string option"
  severity :: "string option"
  service :: "string option"
  message :: "string option"
  limit :: "nat option"
  sortByFrequency :: "bool option"

record ElasticsearchSearchResult =
  res_id :: string
  res_index :: string
  res_timestamp :: "SourceValue option"
  res_message :: "SourceValue option"
  res_level :: "SourceValue option"
  res_service :: "SourceValue option"
  res_environment :: "SourceValue option"
  res_stack_trace :: "SourceValue option"
  res_tags :: "SourceValue option"
  res_fields :: "(string \<times> SourceValue) list"

text \<open>\<^verbatim>\<open>a || b\<close> on fields of a source document: an array is truthy, the empty string is not.\<close>

definition truthyValue :: "SourceValue option \<Rightarrow> bool" where
  "truthyValue a = (case a of None \<Rightarrow> False | Some (Str v) \<Rightarrow> v \<noteq> [] | Some (Arr _) \<Rightarrow> True)"

definition valueOr :: "SourceValue option \<Rightarrow> SourceValue option \<Rightarrow> SourceValue option" where
  "valueOr a b = (if truthyValue a then a else b)"

text \<open>The time filter of \<open>searchExceptions\<close>: the given range, else the last day.\<close>

definition exceptionsTimeFilter :: "int \<Rightarrow> 'a SearchFilters_scheme \<Rightarrow> Clause" where
  "exceptionsTimeFilter now filters =
     (case timeRange filters of
        Some tr \<Rightarrow> Range (Verbatim (range_start tr)) (Some (Verbatim (range_end tr)))
      | None \<Rightarrow> Range (Formatted (subDays now 1)) None)"

definition exceptionsQuery :: "int \<Rightarrow> 'a SearchFilters_scheme \<Rightarrow> BoolQuery" where
  "exceptionsQuery now filters =
     \<lparr>must =
        (if truthy (message filters)
         then [MultiMatch (the (message filters))
                 [''message'', ''error.message'', ''exception.message''] ''best_fields'']
         else []),
      filter' =
        [exceptionsTimeFilter now filters]
        @ (if truthy (severity filters)
           then [Term ''log.level'' (toLowerCase (the (severity filters)))] else [])
        @ (if truthy (service filters)
           then [Term ''service.name'' (the (service filters))] else [])\<rparr>"

definition exceptionsSourceFields :: "string list" where
  "exceptionsSourceFields =
     [''@timestamp'', ''message'', ''log.level'', ''service.name'', ''error.message'',
      ''error.stack_trace'', ''exception.message'', ''exception.stacktrace'', ''tags'',
      ''environment'']"

definition exceptionsSearchParams ::
  "TeamConfig \<Rightarrow> int \<Rightarrow> 'a SearchFilters_scheme \<Rightarrow> SearchParams" where
  "exceptionsSearchParams teamConfig now filters =
     \<lparr>index = exceptions (indexPatterns teamConfig),
      body_query = exceptionsQuery now filters,
      body_size = numberOr (maxSearchResults teamConfig) 50,
      body_source = exceptionsSourceFields,
      body_aggs = []\<rparr>"

definition exceptionResult :: "Hit \<Rightarrow> ElasticsearchSearchResult" where
  "exceptionResult hit =
     (let src = map_of (hit_source hit)
      in \<lparr>res_id = hit_id hit,
          res_index = hit_index hit,
          res_timestamp = src ''@timestamp'',
          res_message =
            valueOr (valueOr (src ''message'') (src ''error.message''))
                    (src ''exception.message''),
          res_level = src ''log.level'',
          res_service = src ''service.name'',
          res_environment = src ''environment'',
          res_stack_trace = valueOr (src ''error.stack_trace'') (src ''exception.stacktrace''),
          res_tags = src ''tags'',
          res_fields = hit_source hit\<rparr>)"

text \<open>
  A service call takes the state of the service and returns the new state with the
  outcome: \<open>Inl\<close> is the error thrown. \<open>now\<close> is what \<^verbatim>\<open>new Date()\<close> gives.
\<close>

definition searchExceptions ::
  "MultiTeamConfig \<Rightarrow> Store \<Rightarrow> int \<Rightarrow> ServiceState \<Rightarrow> string \<Rightarrow> 'a SearchFilters_scheme
     \<Rightarrow> ServiceState \<times> (Error + ElasticsearchSearchResult list)" where
  "searchExceptions config store now s tid filters =
     (case getTeamConfig config tid of
        Inl e \<Rightarrow> (s, Inl e)
      | Inr teamConfig \<Rightarrow>
          (case getClient config s tid (environment filters) of
             Inl e \<Rightarrow> (s, Inl e)
           | Inr (s1, client) \<Rightarrow>
               (let searchParams = exceptionsSearchParams teamConfig now filters;
                    s2 = s1\<lparr>calls := calls s1 @ [SearchCall client searchParams]\<rparr>
                in (case client_search store client searchParams of
                      Inl e \<Rightarrow> (s2, Inl (OperationFailed ''Failed to search exceptions'' e))
                    | Inr hits \<Rightarrow> (s2, Inr (map exceptionResult hits))))))"

text \<open>The time filter of \<open>analyzeExceptions\<close>: the given range, else the last seven days.\<close>

definition analysisTimeFilter :: "int \<Rightarrow> 'a SearchFilters_scheme \<Rightarrow> Clause" where
  "analysisTimeFilter now filters =
     (case timeRange filters of
        Some tr \<Rightarrow> Range (Verbatim (range_start tr)) (Some (Verbatim (range_end tr)))
      | None \<Rightarrow> Range (Formatted (subDays now 7)) None)"

text \<open>The time filter of \<open>searchLogs\<close>: the given range, else \<^verbatim>\<open>subDays(new Date(), 0.04)\<close>.\<close>

definition logsTimeFilter :: "int \<Rightarrow> 'a SearchFilters_scheme \<Rightarrow> Clause" where
  "logsTimeFilter now filters =
     (case timeRange filters of
        Some tr \<Rightarrow> Range (Verbatim (range_start tr)) (Some (Verbatim (range_end tr)))
      | None \<Rightarrow> Range (Formatted (subDays now (4 / 100))) None)"

definition logsQuery :: "int \<Rightarrow> 'a SearchFilters_scheme \<Rightarrow> BoolQuery" where
  "logsQuery now filters =
     \<lparr>must =
        (if truthy (message filters)
         then [MultiMatch (the (message filters)) [''message'', ''log.message''] ''best_fields'']
         else []),
      filter' =
        [logsTimeFilter now filters]
        @ (if truthy (service filters)
           then [Term ''service.name'' (the (service filters))] else [])\<rparr>"

definition logsSearchParams ::
  "TeamConfig \<Rightarrow> int \<Rightarrow> 'a SearchFilters_scheme \<Rightarrow> SearchParams" where
  "logsSearchParams teamConfig now filters =
     \<lparr>index =
        applications (indexPatterns teamConfig)
        @ (case logs (indexPatterns teamConfig) of None \<Rightarrow> [] | Some ps \<Rightarrow> ps),
      body_query = logsQuery now filters,
      body_size = numberOr (maxSearchResults teamConfig) 50,
      body_source =
        [''@timestamp'', ''message'', ''log.level'', ''service.name'', ''tags'',
         ''environment''],
      body_aggs = []\<rparr>"

definition logResult :: "Hit \<Rightarrow> ElasticsearchSearchResult" where
  "logResult hit =
     (let src = map_of (hit_source hit)
      in \<lparr>res_id = hit_id hit,
          res_index = hit_index hit,
          res_timestamp = src ''@timestamp'',
          res_message = valueOr (src ''message'') (src ''log.message''),
          res_level = src ''log.level'',
          res_service = src ''service.name'',
          res_environment = src ''environment'',
          res_stack_trace = None,
          res_tags = src ''tags'',
          res_fields = hit_source hit\<rparr>)"

definition searchLogs ::
  "MultiTeamConfig \<Rightarrow> Store \<Rightarrow> int \<Rightarrow> ServiceState \<Rightarrow> string \<Rightarrow> 'a SearchFilters_scheme
     \<Rightarrow> ServiceState \<times> (Error + ElasticsearchSearchResult list)" where
  "searchLogs config store now s tid filters =
     (case getTeamConfig config tid of
        Inl e \<Rightarrow> (s, Inl e)
      | Inr teamConfig \<Rightarrow>
          (case getClient config s tid (environment filters) of
             Inl e \<Rightarrow> (s, Inl e)
           | Inr (s1, client) \<Rightarrow>
               (let searchParams = logsSearchParams teamConfig now filters;
                    s2 = s1\<lparr>calls := calls s1 @ [SearchCall client searchParams]\<rparr>
                in (case client_search store client searchParams of
                      Inl e \<Rightarrow> (s2, Inl (OperationFailed ''Failed to search logs'' e))
                    | Inr hits \<Rightarrow> (s2, Inr (map logResult hits))))))"

text \<open>\<open>testConnection\<close> catches every error, also those of \<open>getClient\<close>, and answers false.\<close>

definition testConnection ::
  "MultiTeamConfig \<Rightarrow> Store \<Rightarrow> ServiceState \<Rightarrow> string \<Rightarrow> string option
     \<Rightarrow> ServiceState \<times> bool" where
  "testConnection config store s tid env =
     (case getClient config s tid env of
        Inl e \<Rightarrow> (s, False)
      | Inr (s1, client) \<Rightarrow>
          (let s2 = s1\<lparr>calls := calls s1 @ [PingCall client]\<rparr>
           in (case ping store client of
                 Inl e \<Rightarrow> (s2, False)
               | Inr response \<Rightarrow> (s2, response))))"

text \<open>The table every \<open>timeframe\<close> parameter of the service goes through: hours, else 24.\<close>

definition timeRangeHours :: "string \<Rightarrow> nat" where
  "timeRangeHours tf =
     (case map_of [(''1h'', 1), (''6h'', 6), (''12h'', 12), (''24h'', 24), (''7d'', 168)] tf of
        Some h \<Rightarrow> if h = 0 then 24 else h
      | None \<Rightarrow> 24)"

text \<open>
  The window of \<open>searchFrequentExceptions\<close>, \<open>searchExceptionsByContext\<close>,
  \<open>analyzeSpecificException\<close> and \<open>getServiceExceptionTrends\<close>.
\<close>

definition timeframeFilter :: "int \<Rightarrow> string \<Rightarrow> Clause" where
  "timeframeFilter now tf =
     (let timeRangeStart = now - int (timeRangeHours tf) * 60 * 60 * 1000
      in Range (Formatted timeRangeStart) (Some (Formatted now)))"

section \<open>Trends (\<open>getServiceExceptionTrends\<close>, \<open>determineTrend\<close>)\<close>

text \<open>
  Counts are natural numbers. Quotients are exact rationals: the rounding of the
  source's binary floating point is not modelled. A division by zero gives the
  source's \<open>Infinity\<close>, \<open>-Infinity\<close> or \<open>NaN\<close>, and a comparison with \<open>NaN\<close> is false.
\<close>

datatype JsNumber = Finite rat | PosInfinity | NegInfinity | NaN

definition jsDivide :: "rat \<Rightarrow> rat \<Rightarrow> JsNumber" where
  "jsDivide a b =
     (if b \<noteq> 0 then Finite (a / b)
      else if a > 0 then PosInfinity
      else if a < 0 then NegInfinity
      else NaN)"

text \<open>Multiplication by a positive constant.\<close>

definition jsTimes :: "JsNumber \<Rightarrow> rat \<Rightarrow> JsNumber" where
  "jsTimes x c = (case x of Finite v \<Rightarrow> Finite (v * c) | other \<Rightarrow> other)"

definition jsGreater :: "JsNumber \<Rightarrow> rat \<Rightarrow> bool" where
  "jsGreater x c =
     (case x of Finite v \<Rightarrow> v > c | PosInfinity \<Rightarrow> True | NegInfinity \<Rightarrow> False | NaN \<Rightarrow> False)"

definition jsLess :: "JsNumber \<Rightarrow> rat \<Rightarrow> bool" where
  "jsLess x c =
     (case x of Finite v \<Rightarrow> v < c | PosInfinity \<Rightarrow> False | NegInfinity \<Rightarrow> True | NaN \<Rightarrow> False)"

text \<open>\<^verbatim>\<open>Math.round\<close>: the nearest integer, a tie going up.\<close>

definition mathRound :: "rat \<Rightarrow> int" where
  "mathRound x = \<lfloor>x + 1 / 2\<rfloor>"

record ServiceExceptionTrend =
  st_service :: string
  st_exceptionCount :: nat
  st_trend :: string
  st_percentageChange :: int
  st_topExceptions :: "MessageCount list"

definition percentageChangeOf :: "nat \<Rightarrow> nat \<Rightarrow> rat" where
  "percentageChangeOf firstHalfCount secondHalfCount =
     (if firstHalfCount > 0
      then ((of_nat secondHalfCount - of_nat firstHalfCount) / of_nat firstHalfCount) * 100
      else 0)"

definition trendOf :: "rat \<Rightarrow> string" where
  "trendOf percentageChange =
     (if percentageChange > 10 then ''increasing''
      else if percentageChange < - 10 then ''decreasing''
      else ''stable'')"

text \<open>The body of the loop over the buckets, and the loop.\<close>

definition serviceTrend :: "ServiceBucket \<Rightarrow> ServiceExceptionTrend" where
  "serviceTrend bucket =
     (let firstHalfCount = sb_first_half bucket;
          secondHalfCount = sb_second_half bucket;
          percentageChange = percentageChangeOf firstHalfCount secondHalfCount
      in \<lparr>st_service = sb_key bucket,
          st_exceptionCount = sb_total_exceptions bucket,
          st_trend = trendOf percentageChange,
          st_percentageChange = mathRound percentageChange,
          st_topExceptions = sb_top_exceptions bucket\<rparr>)"

definition serviceTrends :: "ServiceBucket list \<Rightarrow> ServiceExceptionTrend list" where
  "serviceTrends buckets = map serviceTrend buckets"

definition sumCounts :: "HistogramBucket list \<Rightarrow> nat" where
  "sumCounts buckets = foldl (\<lambda>sum bucket. sum + doc_count bucket) 0 buckets"

definition determineTrend :: "HistogramBucket list \<Rightarrow> string" where
  "determineTrend timeDistribution =
     (if length timeDistribution < 2 then ''stable''
      else
        (let firstHalf = take (length timeDistribution div 2) timeDistribution;
             secondHalf = drop (length timeDistribution div 2) timeDistribution;
             firstHalfAvg = jsDivide (of_nat (sumCounts firstHalf)) (of_nat (length firstHalf));
             secondHalfAvg = jsDivide (of_nat (sumCounts secondHalf)) (of_nat (length secondHalf));
             change =
               (case (firstHalfAvg, secondHalfAvg) of
                  (Finite f, Finite g) \<Rightarrow> jsTimes (jsDivide (g - f) f) 100
                | _ \<Rightarrow> NaN)
         in if jsGreater change 10 then ''increasing''
            else if jsLess change (- 10) then ''decreasing''
            else ''stable''))"

section \<open>\<open>ElasticsearchService\<close>: analyses\<close>

record TopException =
  te_message :: string
  te_count :: nat
  te_firstSeen :: string
  te_lastSeen :: string
  te_affectedServices :: "string list"

record TimeCount =
  tc_timestamp :: string
  tc_count :: nat

record ExceptionAnalysis =
  totalCount :: nat
  uniqueExceptions :: nat
  topExceptions :: "TopException list"
  timeDistribution :: "TimeCount list"

definition analysisSearchParams ::
  "TeamConfig \<Rightarrow> int \<Rightarrow> 'a SearchFilters_scheme \<Rightarrow> SearchParams" where
  "analysisSearchParams teamConfig now filters =
     \<lparr>index = exceptions (indexPatterns teamConfig),
      body_query = \<lparr>must = [], filter' = [analysisTimeFilter now filters]\<rparr>,
      body_size = 0,
      body_source = [],
      body_aggs = [''total_count'', ''unique_exceptions'', ''top_exceptions'',
                   ''time_distribution'']\<rparr>"

definition analyzeExceptions ::
  "MultiTeamConfig \<Rightarrow> Store \<Rightarrow> int \<Rightarrow> ServiceState \<Rightarrow> string \<Rightarrow> 'a SearchFilters_scheme
     \<Rightarrow> ServiceState \<times> (Error + ExceptionAnalysis)" where
  "analyzeExceptions config store now s tid filters =
     (case getTeamConfig config tid of
        Inl e \<Rightarrow> (s, Inl e)
      | Inr teamConfig \<Rightarrow>
          (case getClient config s tid (environment filters) of
             Inl e \<Rightarrow> (s, Inl e)
           | Inr (s1, client) \<Rightarrow>
               (let searchParams = analysisSearchParams teamConfig now filters;
                    s2 = s1\<lparr>calls := calls s1 @ [SearchCall client searchParams]\<rparr>
                in (case analysisAnswer store client searchParams of
                      Inl e \<Rightarrow> (s2, Inl (OperationFailed ''Failed to analyze exceptions'' e))
                    | Inr aggs \<Rightarrow>
                        (s2, Inr
                           \<lparr>totalCount = agg_total_count aggs,
                            uniqueExceptions = agg_unique_exceptions aggs,
                            topExceptions =
                              map (\<lambda>bucket.
                                     \<lparr>te_message = teb_key bucket,
                                      te_count = teb_doc_count bucket,
                                      te_firstSeen = teb_first_seen bucket,
                                      te_lastSeen = teb_last_seen bucket,
                                      te_affectedServices = teb_affected_services bucket\<rparr>)
                                  (agg_top_exceptions aggs),
                            timeDistribution =
                              map (\<lambda>bucket.
                                     \<lparr>tc_timestamp = key_as_string bucket,
                                      tc_count = doc_count bucket\<rparr>)
                                  (agg_time_distribution aggs)\<rparr>)))))"

text \<open>
  The result of \<open>analyzeSpecificException\<close>, without the two lists of texts that the
  keywords of the message select.
\<close>

record SpecificExceptionAnalysis =
  ex_message :: "SourceValue option"
  ex_service :: "SourceValue option"
  ex_stackTrace :: "SourceValue option"
  freq_total :: nat
  freq_trend :: string
  affectedServices :: "string list"

definition specificSearchParams :: "TeamConfig \<Rightarrow> int \<Rightarrow> string \<Rightarrow> string \<Rightarrow> SearchParams" where
  "specificSearchParams teamConfig now exceptionMessage tf =
     \<lparr>index = exceptions (indexPatterns teamConfig),
      body_query =
        \<lparr>must = [timeframeFilter now tf,
                 MultiMatch exceptionMessage
                   [''error.message'', ''exception.message'', ''message''] ''phrase''],
         filter' = []\<rparr>,
      body_size = 100,
      body_source =
        [''@timestamp'', ''error.message'', ''exception.message'', ''service.name'',
         ''error.stack_trace'', ''exception.stacktrace'', ''message''],
      body_aggs = [''affected_services'', ''time_distribution'']\<rparr>"

definition analyzeSpecificException ::
  "MultiTeamConfig \<Rightarrow> Store \<Rightarrow> int \<Rightarrow> ServiceState \<Rightarrow> string \<Rightarrow> string \<Rightarrow> string
     \<Rightarrow> 'a SearchFilters_scheme \<Rightarrow> ServiceState \<times> (Error + SpecificExceptionAnalysis)" where
  "analyzeSpecificException config store now s tid exceptionMessage tf filters =
     (case getTeamConfig config tid of
        Inl e \<Rightarrow> (s, Inl e)
      | Inr teamConfig \<Rightarrow>
          (case getClient config s tid (environment filters) of
             Inl e \<Rightarrow> (s, Inl e)
           | Inr (s1, client) \<Rightarrow>
               (let searchParams = specificSearchParams teamConfig now exceptionMessage tf;
                    s2 = s1\<lparr>calls := calls s1 @ [SearchCall client searchParams]\<rparr>
                in (case specificAnswer store client searchParams of
                      Inl e \<Rightarrow>
                        (s2, Inl (OperationFailed ''Failed to analyze specific exception'' e))
                    | Inr response \<Rightarrow>
                        (case take (body_size searchParams) (sa_hits response) of
                           [] \<Rightarrow>
                             (s2, Inl (OperationFailed ''Failed to analyze specific exception''
                                         (''No exceptions found matching: '' @ exceptionMessage)))
                         | hit # _ \<Rightarrow>
                             (let latestException = map_of (hit_source hit);
                                  timeDistribution = sa_time_distribution response;
                                  trend = (if length timeDistribution > 1
                                           then determineTrend timeDistribution else ''stable'')
                              in (s2, Inr
                                    \<lparr>ex_message =
                                       valueOr
                                         (valueOr
                                            (valueOr (latestException ''error.message'')
                                                     (latestException ''exception.message''))
                                            (latestException ''message''))
                                         (Some (Str exceptionMessage)),
                                     ex_service =
                                       valueOr (latestException ''service.name'')
                                               (Some (Str ''unknown'')),
                                     ex_stackTrace =
                                       valueOr (latestException ''error.stack_trace'')
                                               (latestException ''exception.stacktrace''),
                                     freq_total =
                                       (case sa_total response of None \<Rightarrow> 0 | Some n \<Rightarrow> n),
                                     freq_trend = trend,
                                     affectedServices = sa_affected_services response\<rparr>)))))))"

definition errorMarkers :: Clause where
  "errorMarkers =
     ShouldMatch [Exists ''error.message'', Exists ''exception.message'',
                  Term ''log.level'' ''ERROR''] 1"

definition trendsSearchParams :: "TeamConfig \<Rightarrow> int \<Rightarrow> string \<Rightarrow> SearchParams" where
  "trendsSearchParams teamConfig now tf =
     \<lparr>index = exceptions (indexPatterns teamConfig),
      body_query = \<lparr>must = [timeframeFilter now tf, errorMarkers], filter' = []\<rparr>,
      body_size = 0,
      body_source = [],
      body_aggs = [''services'']\<rparr>"

definition getServiceExceptionTrends ::
  "MultiTeamConfig \<Rightarrow> Store \<Rightarrow> int \<Rightarrow> ServiceState \<Rightarrow> string \<Rightarrow> string
     \<Rightarrow> 'a SearchFilters_scheme \<Rightarrow> ServiceState \<times> (Error + ServiceExceptionTrend list)" where
  "getServiceExceptionTrends config store now s tid tf filters =
     (case getTeamConfig config tid of
        Inl e \<Rightarrow> (s, Inl e)
      | Inr teamConfig \<Rightarrow>
          (case getClient config s tid (environment filters) of
             Inl e \<Rightarrow> (s, Inl e)
           | Inr (s1, client) \<Rightarrow>
               (let searchParams = trendsSearchParams teamConfig now tf;
                    s2 = s1\<lparr>calls := calls s1 @ [SearchCall client searchParams]\<rparr>
                in (case servicesAnswer store client searchParams of
                      Inl e \<Rightarrow>
                        (s2, Inl (OperationFailed ''Failed to get service exception trends'' e))
                    | Inr None \<Rightarrow> (s2, Inr [])
                    | Inr (Some buckets) \<Rightarrow> (s2, Inr (serviceTrends buckets))))))"

section \<open>The tools\<close>

record SearchExceptionsParams = SearchFilters +
  query :: "string option"
  smartSearch :: "bool option"

definition timeframeTokens :: "string list" where
  "timeframeTokens = [''1h'', ''6h'', ''12h'', ''24h'', ''7d'']"

text \<open>
  \<open>searchExceptionsSchema\<close>: the caller's parameters are refused (\<open>None\<close>) when the
  timeframe is no token of the enumeration or the limit is outside 1 to 100; else the
  defaults are filled in. Limits are whole numbers.
\<close>

definition searchExceptionsSchema :: "SearchExceptionsParams \<Rightarrow> SearchExceptionsParams option" where
  "searchExceptionsSchema raw =
     (if (case timeframe raw of None \<Rightarrow> True | Some tf \<Rightarrow> tf \<in> set timeframeTokens)
         \<and> (case limit raw of None \<Rightarrow> True | Some l \<Rightarrow> 1 \<le> l \<and> l \<le> 100)
      then Some (raw\<lparr>limit := Some (case limit raw of None \<Rightarrow> 20 | Some l \<Rightarrow> l),
                      sortByFrequency :=
                        Some (case sortByFrequency raw of None \<Rightarrow> False | Some b \<Rightarrow> b),
                      smartSearch :=
                        Some (case smartSearch raw of None \<Rightarrow> True | Some b \<Rightarrow> b)\<rparr>)
      else None)"

record SearchResponse =
  resp_teamId :: string
  resp_environment :: "string option"
  resp_totalResults :: nat
  resp_results :: "ElasticsearchSearchResult list"

definition searchResponse ::
  "string \<Rightarrow> TeamConfig \<Rightarrow> string option \<Rightarrow> ElasticsearchSearchResult list \<Rightarrow> SearchResponse" where
  "searchResponse tid teamConfig env results =
     \<lparr>resp_teamId = tid,
      resp_environment = orElse env (defaultEnvironment teamConfig),
      resp_totalResults = length results,
      resp_results = results\<rparr>"

definition joinWords :: "string list \<Rightarrow> string" where
  "joinWords ws = (case ws of [] \<Rightarrow> [] | w # rest \<Rightarrow> foldl (\<lambda>acc x. acc @ '' '' @ x) w rest)"

text \<open>
  The messages of the searches a smart search starts, in the order in which they are
  pushed: the quoted phrase, the key terms, the first key term longer than four.
\<close>

definition smartSearchMessages :: "string \<Rightarrow> string list" where
  "smartSearchMessages searchTerm =
     (let keyTerms = extractKeyTerms searchTerm;
          importantWords = filter (\<lambda>term. length term > 4) keyTerms
      in [[CHR 0x22] @ searchTerm @ [CHR 0x22]]
         @ (if length keyTerms > 0 then [joinWords keyTerms] else [])
         @ (case importantWords of [] \<Rightarrow> [] | w # _ \<Rightarrow> [w]))"

text \<open>
  \<^verbatim>\<open>Promise.allSettled(searchPromises)\<close>: every search runs up to its request in the
  order of the list, and the outcomes come back in that order, \<open>Inr\<close> a fulfilled
  promise with its value and \<open>Inl\<close> a rejected one.
\<close>

fun runSearches ::
  "MultiTeamConfig \<Rightarrow> Store \<Rightarrow> int \<Rightarrow> ServiceState \<Rightarrow> string \<Rightarrow> 'a SearchFilters_scheme
     \<Rightarrow> string list \<Rightarrow> ServiceState \<times> (Error + ElasticsearchSearchResult list) list" where
  "runSearches config store now s tid params [] = (s, [])"
| "runSearches config store now s tid params (m # ms) =
     (case searchExceptions config store now s tid (params\<lparr>message := Some m\<rparr>) of
        (s1, outcome) \<Rightarrow>
          (case runSearches config store now s1 tid params ms of
             (s2, outcomes) \<Rightarrow> (s2, outcome # outcomes)))"

text \<open>The \<open>Map\<close> of combined results: keys in insertion order.\<close>

definition addItem ::
  "(string \<times> ElasticsearchSearchResult) list \<Rightarrow> ElasticsearchSearchResult
     \<Rightarrow> (string \<times> ElasticsearchSearchResult) list" where
  "addItem combinedResults item =
     (if map_of combinedResults (res_id item) = None
      then combinedResults @ [(res_id item, item)]
      else combinedResults)"

definition fulfilled :: "(Error + 'a) list \<Rightarrow> 'a list" where
  "fulfilled allResults = concat (map (\<lambda>r. case r of Inr v \<Rightarrow> [v] | Inl _ \<Rightarrow> []) allResults)"

definition combineResults ::
  "(Error + ElasticsearchSearchResult list) list \<Rightarrow> (string \<times> ElasticsearchSearchResult) list" where
  "combineResults allResults =
     foldl (\<lambda>combined val. foldl addItem combined val) [] (fulfilled allResults)"

text \<open>\<^verbatim>\<open>.slice(0, limit)\<close>; without a limit the whole list.\<close>

definition sliceTo :: "nat option \<Rightarrow> 'a list \<Rightarrow> 'a list" where
  "sliceTo count xs = (case count of None \<Rightarrow> xs | Some n \<Rightarrow> take n xs)"

definition smartSearchResults ::
  "(Error + ElasticsearchSearchResult list) list \<Rightarrow> nat option \<Rightarrow> ElasticsearchSearchResult list" where
  "smartSearchResults allResults count = sliceTo count (map snd (combineResults allResults))"

text \<open>
  The handler of \<open>search_exceptions\<close> (the version with smart search). Each call makes
  its own service object; the configuration is the one the \<open>ConfigManager\<close> has loaded.
  \<open>Inl\<close> is the answer with \<open>isError\<close>; the state returned tells which calls reached the
  store.
\<close>

definition searchExceptionsHandler ::
  "MultiTeamConfig \<Rightarrow> Store \<Rightarrow> int \<Rightarrow> string \<Rightarrow> SearchExceptionsParams
     \<Rightarrow> ServiceState \<times> (Error + SearchResponse)" where
  "searchExceptionsHandler config store now tid params =
     (case getTeamConfig config tid of
        Inl e \<Rightarrow> (newService, Inl e)
      | Inr teamConfig \<Rightarrow>
          if operationBlocked teamConfig ''search_exceptions''
          then (newService, Inl (OperationNotAllowed ''search_exceptions'' tid))
          else if smartSearch params = Some True
                  \<and> truthy (orElse (message params) (query params))
          then
            (let searchTerm = the (orElse (message params) (query params))
             in (case runSearches config store now newService tid params
                        (smartSearchMessages searchTerm) of
                   (s, allResults) \<Rightarrow>
                     (s, Inr (searchResponse tid teamConfig (environment params)
                                (smartSearchResults allResults (limit params))))))
          else
            (case searchExceptions config store now newService tid
                    \<lparr>environment = environment params,
                     timeRange = timeRange params,
                     timeframe = timeframe params,
                     severity = severity params,
                     service = service params,
                     message = orElse (message params) (query params),
                     limit = limit params,
                     sortByFrequency = sortByFrequency params\<rparr> of
               (s, Inl e) \<Rightarrow> (s, Inl e)
             | (s, Inr results) \<Rightarrow>
                 (s, Inr (searchResponse tid teamConfig (environment params) results))))"

text \<open>The tool as the caller sees it: the schema, then the handler.\<close>

definition searchExceptionsTool ::
  "MultiTeamConfig \<Rightarrow> Store \<Rightarrow> int \<Rightarrow> string \<Rightarrow> SearchExceptionsParams
     \<Rightarrow> (ServiceState \<times> (Error + SearchResponse)) option" where
  "searchExceptionsTool config store now tid raw =
     (case searchExceptionsSchema raw of
        None \<Rightarrow> None
      | Some params \<Rightarrow> Some (searchExceptionsHandler config store now tid params))"

text \<open>The handler of \<open>search_logs\<close>; its schema has four optional parameters.\<close>

definition searchLogsHandler ::
  "MultiTeamConfig \<Rightarrow> Store \<Rightarrow> int \<Rightarrow> string \<Rightarrow> 'a SearchFilters_scheme
     \<Rightarrow> ServiceState \<times> (Error + SearchResponse)" where
  "searchLogsHandler config store now tid params =
     (case getTeamConfig config tid of
        Inl e \<Rightarrow> (newService, Inl e)
      | Inr teamConfig \<Rightarrow>
          if operationBlocked teamConfig ''search_logs''
          then (newService, Inl (OperationNotAllowed ''search_logs'' tid))
          else
            (case searchLogs config store now newService tid
                    \<lparr>environment = environment params,
                     timeRange = timeRange params,
                     timeframe = None,
                     severity = None,
                     service = service params,
                     message = message params,
                     limit = None,
                     sortByFrequency = None\<rparr> of
               (s, Inl e) \<Rightarrow> (s, Inl e)
             | (s, Inr results) \<Rightarrow>
                 (s, Inr (searchResponse tid teamConfig (environment params) results))))"

record ConnectionResponse =
  conn_teamId :: string
  conn_environment :: "string option"
  conn_connected :: bool

text \<open>The handler of \<open>test_connection\<close>; \<open>env\<close> is its one parameter, \<open>environment\<close>.\<close>

definition testConnectionHandler ::
  "MultiTeamConfig \<Rightarrow> Store \<Rightarrow> string \<Rightarrow> string option
     \<Rightarrow> ServiceState \<times> (Error + ConnectionResponse)" where
  "testConnectionHandler config store tid env =
     (case getTeamConfig config tid of
        Inl e \<Rightarrow> (newService, Inl e)
      | Inr teamConfig \<Rightarrow>
          (case testConnection config store newService tid env of
             (s, isConnected) \<Rightarrow>
               (s, Inr \<lparr>conn_teamId = tid,
                        conn_environment = orElse env (defaultEnvironment teamConfig),
                        conn_connected = isConnected\<rparr>)))"

text \<open>The handler of \<open>analyze_exception\<close>; the schema fills in the timeframe \<open>24h\<close>.\<close>

record AnalyzeExceptionResponse =
  ar_teamId :: string
  ar_environment :: "string option"
  ar_analysis :: SpecificExceptionAnalysis

definition analyzeExceptionHandler ::
  "MultiTeamConfig \<Rightarrow> Store \<Rightarrow> int \<Rightarrow> string \<Rightarrow> string option \<Rightarrow> string \<Rightarrow> string
     \<Rightarrow> ServiceState \<times> (Error + AnalyzeExceptionResponse)" where
  "analyzeExceptionHandler config store now tid env exceptionMessage tf =
     (case getTeamConfig config tid of
        Inl e \<Rightarrow> (newService, Inl e)
      | Inr teamConfig \<Rightarrow>
          if operationBlocked teamConfig ''analyze_exception''
          then (newService, Inl (OperationNotAllowed ''analyze_exception'' tid))
          else
            (case analyzeSpecificException config store now newService tid exceptionMessage tf
                    \<lparr>environment = env, timeRange = None, timeframe = None, severity = None,
                     service = None, message = None, limit = None,
                     sortByFrequency = None\<rparr> of
               (s, Inl e) \<Rightarrow> (s, Inl e)
             | (s, Inr analysis) \<Rightarrow>
                 (s, Inr \<lparr>ar_teamId = tid,
                          ar_environment = orElse env (defaultEnvironment teamConfig),
                          ar_analysis = analysis\<rparr>)))"

text \<open>
  The handler of \<open>analyze_trends\<close>; the schema fills in the timeframe \<open>24h\<close> and the
  analysis type \<open>both\<close>.
\<close>

datatype AnalysisType = ExceptionsOnly | ServicesOnly | Both

record AnalyzeTrendsParams =
  at_environment :: "string option"
  at_timeRange :: "TimeRange option"
  at_timeframe :: string
  at_analysisType :: AnalysisType
  at_services :: "string list option"

record AnalyzeTrendsResponse =
  tr_teamId :: string
  tr_environment :: "string option"
  tr_exceptionAnalysis :: "ExceptionAnalysis option"
  tr_serviceAnalysis :: "ServiceExceptionTrend list option"

definition analyzeTrendsHandler ::
  "MultiTeamConfig \<Rightarrow> Store \<Rightarrow> int \<Rightarrow> string \<Rightarrow> AnalyzeTrendsParams
     \<Rightarrow> ServiceState \<times> (Error + AnalyzeTrendsResponse)" where
  "analyzeTrendsHandler config store now tid params =
     (case getTeamConfig config tid of
        Inl e \<Rightarrow> (newService, Inl e)
      | Inr teamConfig \<Rightarrow>
          if operationBlocked teamConfig ''analyze_trends''
          then (newService, Inl (OperationNotAllowed ''analyze_trends'' tid))
          else
            (case (if at_analysisType params = ExceptionsOnly \<or> at_analysisType params = Both
                   then (case analyzeExceptions config store now newService tid
                                \<lparr>environment = at_environment params,
                                 timeRange = at_timeRange params,
                                 timeframe = None, severity = None, service = None,
                                 message = None, limit = None, sortByFrequency = None\<rparr> of
                           (s, Inl e) \<Rightarrow> (s, Inl e)
                         | (s, Inr analysis) \<Rightarrow> (s, Inr (Some analysis)))
                   else (newService, Inr None)) of
               (s, Inl e) \<Rightarrow> (s, Inl e)
             | (s, Inr exceptionAnalysis) \<Rightarrow>
                 (case (if at_analysisType params = ServicesOnly \<or> at_analysisType params = Both
                        then (case getServiceExceptionTrends config store now s tid
                                     (at_timeframe params)
                                     \<lparr>environment = at_environment params,
                                      timeRange = None, timeframe = None, severity = None,
                                      service = None, message = None, limit = None,
                                      sortByFrequency = None\<rparr> of
                                (s1, Inl e) \<Rightarrow> (s1, Inl e)
                              | (s1, Inr trends) \<Rightarrow>
                                  (s1, Inr (Some
                                     (case at_services params of
                                        None \<Rightarrow> trends
                                      | Some names \<Rightarrow>
                                          filter (\<lambda>trend. st_service trend \<in> set names)
                                                 trends))))
                        else (s, Inr None)) of
                    (s1, Inl e) \<Rightarrow> (s1, Inl e)
                  | (s1, Inr serviceAnalysis) \<Rightarrow>
                      (s1, Inr \<lparr>tr_teamId = tid,
                                tr_environment =
                                  orElse (at_environment params) (defaultEnvironment teamConfig),
                                tr_exceptionAnalysis = exceptionAnalysis,
                                tr_serviceAnalysis = serviceAnalysis\<rparr>))))"

section \<open>The example configuration (\<open>teams-config.example.json\<close>) and sample inputs\<close>

definition apiKeyEnvironment :: "string \<Rightarrow> string \<Rightarrow> ElasticsearchEnvironmentConfig" where
  "apiKeyEnvironment url k =
     \<lparr>node = url, apiKey = Some k, username = None, password = None,
      maxRetries = None, requestTimeout = None\<rparr>"

definition passwordEnvironment ::
  "string \<Rightarrow> string \<Rightarrow> string \<Rightarrow> ElasticsearchEnvironmentConfig" where
  "passwordEnvironment url u p =
     \<lparr>node = url, apiKey = None, username = Some u, password = Some p,
      maxRetries = None, requestTimeout = None\<rparr>"

definition teamAlpha :: TeamConfig where
  "teamAlpha =
     \<lparr>teamId = ''team-alpha'', teamName = ''Team Alpha'',
      defaultEnvironment = Some ''production'',
      environments =
        [(''staging'', apiKeyEnvironment ''https://alpha-staging-es.company.com''
                         ''staging-api-key-for-alpha''),
         (''production'', apiKeyEnvironment ''https://alpha-prod-es.company.com''
                            ''prod-api-key-for-alpha'')],
      indexPatterns =
        \<lparr>exceptions = [''alpha-logs-*'', ''alpha-exceptions-*''],
         applications = [''alpha-apm-*'', ''alpha-metrics-*''],
         logs = Some [''alpha-app-logs-*'']\<rparr>,
      maxSearchResults = Some 50,
      allowedOperations =
        Some [''search_exceptions'', ''analyze_exceptions'', ''search_logs'']\<rparr>"

definition teamBeta :: TeamConfig where
  "teamBeta =
     \<lparr>teamId = ''team-beta'', teamName = ''Team Beta'',
      defaultEnvironment = Some ''production'',
      environments =
        [(''staging'', passwordEnvironment ''https://beta-staging-es.company.com''
                         ''beta-staging'' ''beta-staging-password''),
         (''production'', apiKeyEnvironment ''https://beta-prod-es.company.com''
                            ''prod-api-key-for-beta'')],
      indexPatterns =
        \<lparr>exceptions = [''beta-logs-*'', ''beta-errors-*''],
         applications = [''beta-apm-*''],
         logs = None\<rparr>,
      maxSearchResults = Some 25,
      allowedOperations = Some [''search_exceptions'', ''search_logs'']\<rparr>"

definition teamGamma :: TeamConfig where
  "teamGamma =
     \<lparr>teamId = ''team-gamma'', teamName = ''Team Gamma - DevOps'',
      defaultEnvironment = Some ''production'',
      environments =
        [(''development'', passwordEnvironment ''https://gamma-dev-es.company.com''
                             ''gamma-dev'' ''gamma-dev-password''),
         (''staging'', apiKeyEnvironment ''https://gamma-staging-es.company.com''
                         ''staging-api-key-for-gamma''),
         (''production'', apiKeyEnvironment ''https://gamma-prod-es.company.com''
                            ''prod-api-key-for-gamma'')],
      indexPatterns =
        \<lparr>exceptions = [''gamma-*-exceptions-*'', ''gamma-*-errors-*''],
         applications = [''gamma-*-apm-*'', ''gamma-*-metrics-*''],
         logs = Some [''gamma-*-logs-*'']\<rparr>,
      maxSearchResults = Some 100,
      allowedOperations = None\<rparr>"

definition exampleConfig :: MultiTeamConfig where
  "exampleConfig =
     \<lparr>teams = [(''team-alpha'', teamAlpha), (''team-beta'', teamBeta),
                (''team-gamma'', teamGamma)]\<rparr>"

text \<open>A store that holds three matching documents, and one that cannot be reached.\<close>

definition sampleHit :: "string \<Rightarrow> string \<Rightarrow> Hit" where
  "sampleHit i m =
     \<lparr>hit_id = i, hit_index = ''errors-2024'',
      hit_source = [(''@timestamp'', Str ''2024-05-01T10:00:00.000Z''), (''message'', Str m)]\<rparr>"

definition sampleStore :: Store where
  "sampleStore =
     \<lparr>matching = (\<lambda>client searchParams.
        Inr [sampleHit ''doc-1'' ''timeout'', sampleHit ''doc-2'' ''refused'',
             sampleHit ''doc-3'' ''reset'']),
      ping = (\<lambda>client. Inr True),
      analysisAnswer = (\<lambda>client searchParams. Inl ''no aggregations''),
      specificAnswer = (\<lambda>client searchParams. Inl ''no aggregations''),
      servicesAnswer = (\<lambda>client searchParams. Inr None)\<rparr>"

definition failingStore :: Store where
  "failingStore =
     \<lparr>matching = (\<lambda>client searchParams. Inl ''connect ECONNREFUSED''),
      ping = (\<lambda>client. Inl ''connect ECONNREFUSED''),
      analysisAnswer = (\<lambda>client searchParams. Inl ''connect ECONNREFUSED''),
      specificAnswer = (\<lambda>client searchParams. Inl ''connect ECONNREFUSED''),
      servicesAnswer = (\<lambda>client searchParams. Inl ''connect ECONNREFUSED'')\<rparr>"

definition noParams :: SearchExceptionsParams where
  "noParams =
     \<lparr>environment = None, timeRange = None, timeframe = None, severity = None,
      service = None, message = None, limit = None, sortByFrequency = None,
      query = None, smartSearch = None\<rparr>"

text \<open>What the search requests sent to the store ask for.\<close>

definition callSizes :: "ServiceState \<Rightarrow> nat list" where
  "callSizes s =
     concat (map (\<lambda>c. case c of SearchCall _ p \<Rightarrow> [body_size p] | PingCall _ \<Rightarrow> [])
                 (calls s))"

definition callFilters :: "ServiceState \<Rightarrow> Clause list list" where
  "callFilters s =
     concat (map (\<lambda>c. case c of SearchCall _ p \<Rightarrow> [filter' (body_query p)] | PingCall _ \<Rightarrow> [])
                 (calls s))"

definition sampleResult :: "string \<Rightarrow> string \<Rightarrow> ElasticsearchSearchResult" where
  "sampleResult i m = exceptionResult (sampleHit i m)"

text \<open>The outcomes of three searches: the second one failed, the third repeats two ids.\<close>

definition sampleOutcomes :: "(Error + ElasticsearchSearchResult list) list" where
  "sampleOutcomes =
     [Inr [sampleResult ''doc-1'' ''timeout'', sampleResult ''doc-2'' ''refused''],
      Inl (OperationFailed ''Failed to search exceptions'' ''connect ECONNREFUSED''),
      Inr [sampleResult ''doc-2'' ''refused again'', sampleResult ''doc-3'' ''reset'',
           sampleResult ''doc-1'' ''timeout'']]"

definition timeoutQuery :: SearchExceptionsParams where
  "timeoutQuery =
     noParams\<lparr>query := Some ''Connection timeout to database'', limit := Some 20,
               sortByFrequency := Some False, smartSearch := Some True\<rparr>"







section \<open>Properties of key-term extraction\<close>

lemma upperChars_codes:
  "c \<in> set upperChars \<Longrightarrow> 65 \<le> (of_char c :: nat) \<and> (of_char c :: nat) \<le> 90"
  by (auto simp: upperChars_def)

lemma toLowerChar_not_upper: "toLowerChar c \<notin> set upperChars"
proof (cases "map_of (zip upperChars lowerChars) c")
  case (Some l)
  then have "l \<in> set lowerChars"
    by (auto dest!: map_of_SomeD set_zip_rightD)
  then have "l \<notin> set upperChars"
    by (auto simp: upperChars_def lowerChars_def)
  with Some show ?thesis by (simp add: toLowerChar_def)
next
  case None
  then have "c \<notin> dom (map_of (zip upperChars lowerChars))"
    by (simp add: domIff)
  moreover have "length upperChars = length lowerChars"
    by (simp add: upperChars_def lowerChars_def)
  ultimately have nu: "c \<notin> set upperChars"
    by simp
  show ?thesis
  proof (cases "192 \<le> (of_char c :: nat) \<and> (of_char c :: nat) \<le> 222
                \<and> (of_char c :: nat) \<noteq> 215")
    case True
    have "(of_char (char_of (of_char c + 32 :: nat)) :: nat) = (of_char c + 32) mod 256"
      by simp
    with True have "(of_char (char_of (of_char c + 32 :: nat)) :: nat) \<ge> 224"
      by simp
    then have "char_of (of_char c + 32 :: nat) \<notin> set upperChars"
      using upperChars_codes by fastforce
    with None True show ?thesis by (simp add: toLowerChar_def Let_def)
  next
    case False
    with None nu show ?thesis by (auto simp add: toLowerChar_def Let_def)
  qed
qed

lemma splitWs_chars:
  "t \<in> set (splitWs insep cur s) \<Longrightarrow> c \<in> set t \<Longrightarrow>
     c \<in> set cur \<or> (c \<in> set s \<and> \<not> isSpace c)"
  by (induction insep cur s rule: splitWs.induct) (auto split: if_splits)

lemma messagePieces_chars:
  assumes "t \<in> set (messagePieces m)" and "c \<in> set t"
  shows "isWord c \<and> c \<notin> set upperChars"
proof -
  from assms have "c \<in> set (replaceSpecial (toLowerCase m))" and ns: "\<not> isSpace c"
    using splitWs_chars [of t False "[]" "replaceSpecial (toLowerCase m)" c]
    by (auto simp: messagePieces_def splitWhitespace_def)
  then obtain d where d: "d \<in> set m"
      and c: "c = (if \<not> isWord (toLowerChar d) \<and> \<not> isSpace (toLowerChar d)
                   then CHR '' '' else toLowerChar d)"
    by (auto simp: replaceSpecial_def toLowerCase_def)
  have sp: "isSpace (CHR '' '')" by (simp add: isSpace_def)
  from c ns sp have "c = toLowerChar d" and "isWord (toLowerChar d)"
    by (auto split: if_splits)
  then show ?thesis using toLowerChar_not_upper by simp
qed

lemma indexOf_ge: "- 1 \<le> indexOf xs x"
  by (induction xs) (auto simp: Let_def)

lemma indexOf_absent: "x \<notin> set xs \<Longrightarrow> indexOf xs x = - 1"
  by (induction xs) (auto simp: Let_def)

lemma indexOf_present:
  "x \<in> set xs \<Longrightarrow>
     0 \<le> indexOf xs x \<and> nat (indexOf xs x) < length xs \<and> xs ! nat (indexOf xs x) = x"
proof (induction xs)
  case Nil
  then show ?case by simp
next
  case (Cons y ys)
  show ?case
  proof (cases "x = y")
    case True
    then show ?thesis by simp
  next
    case False
    with Cons.prems have "x \<in> set ys" by simp
    from Cons.IH [OF this] False show ?thesis
      by (simp add: Let_def nat_add_distrib)
  qed
qed

lemma zip_upt_nth: "zip xs [0..<length xs] = map (\<lambda>i. (xs ! i, i)) [0..<length xs]"
  by (rule nth_equalityI) simp_all

lemma removeDuplicates_alt:
  "removeDuplicates arr =
     map ((!) arr) (filter (\<lambda>i. indexOf arr (arr ! i) = int i) [0..<length arr])"
  by (simp add: removeDuplicates_def zip_upt_nth filter_map comp_def)

lemma removeDuplicates_distinct: "distinct (removeDuplicates arr)"
proof -
  have "inj_on ((!) arr) {i. i < length arr \<and> indexOf arr (arr ! i) = int i}"
  proof (rule inj_onI)
    fix i j
    assume "i \<in> {i. i < length arr \<and> indexOf arr (arr ! i) = int i}"
       and "j \<in> {i. i < length arr \<and> indexOf arr (arr ! i) = int i}"
       and "arr ! i = arr ! j"
    then have "int i = int j" by simp
    then show "i = j" by simp
  qed
  then show ?thesis
    by (simp add: removeDuplicates_alt distinct_map)
qed

lemma removeDuplicates_set: "set (removeDuplicates arr) = set arr"
proof
  show "set (removeDuplicates arr) \<subseteq> set arr"
    by (auto simp: removeDuplicates_alt)
next
  show "set arr \<subseteq> set (removeDuplicates arr)"
  proof
    fix x assume "x \<in> set arr"
    from indexOf_present [OF this]
    have "nat (indexOf arr x) < length arr"
      and "arr ! nat (indexOf arr x) = x"
      and "indexOf arr (arr ! nat (indexOf arr x)) = int (nat (indexOf arr x))"
      by simp_all
    then show "x \<in> set (removeDuplicates arr)"
      by (auto simp: removeDuplicates_alt image_iff intro!: bexI [of _ "nat (indexOf arr x)"])
  qed
qed

lemma removeDuplicates_order:
  "sorted_wrt (\<lambda>a b. indexOf arr a < indexOf arr b) (removeDuplicates arr)"
proof -
  let ?P = "\<lambda>i. indexOf arr (arr ! i) = int i"
  have "sorted_wrt (<) (filter ?P [0..<length arr])"
    by (rule sorted_wrt_filter) simp
  then have "sorted_wrt (\<lambda>i j. indexOf arr (arr ! i) < indexOf arr (arr ! j))
               (filter ?P [0..<length arr])"
    by (rule sorted_wrt_mono_rel [rotated]) auto
  then show ?thesis
    by (simp add: removeDuplicates_alt sorted_wrt_map)
qed

text \<open>
  C8. For every message, \<open>extractKeyTerms\<close> returns at most five terms, without
  duplicates; every term is longer than two characters, is no stop word, and consists
  of lower-cased word characters only (letters, digits, underscore: everything else
  was replaced by a separator); the terms stand in the order in which they were first
  seen, and a qualifying term is left out only when five earlier ones fill the result.
  On the message of the specification the stop words \<open>the\<close> and \<open>to\<close> are dropped and
  \<open>nullpointerexception\<close> is the first term.
\<close>

theorem extractKeyTerms_terms:
  "length (extractKeyTerms m) \<le> 5
   \<and> distinct (extractKeyTerms m)
   \<and> (\<forall>t \<in> set (extractKeyTerms m).
          length t > 2 \<and> t \<notin> set stopWords
          \<and> (\<forall>c \<in> set t. isWord c \<and> c \<notin> set upperChars))
   \<and> sorted_wrt (\<lambda>a b. indexOf (candidateTerms m) a < indexOf (candidateTerms m) b)
         (extractKeyTerms m)
   \<and> (\<forall>t \<in> set (candidateTerms m). t \<notin> set (extractKeyTerms m) \<longrightarrow>
          length (extractKeyTerms m) = 5
          \<and> (\<forall>u \<in> set (extractKeyTerms m).
                 indexOf (candidateTerms m) u < indexOf (candidateTerms m) t))
   \<and> extractKeyTerms ''NullPointerException: the request to user-service returned null''
       = [''nullpointerexception'', ''request'', ''user'', ''service'', ''returned'']"
proof -
  let ?c = "candidateTerms m"
  let ?d = "removeDuplicates ?c"
  let ?r = "extractKeyTerms m"
  have r: "?r = take 5 ?d" by (simp add: extractKeyTerms_def)
  have len: "length ?r \<le> 5" by (simp add: r)
  have dist: "distinct ?r" by (simp add: r removeDuplicates_distinct)
  have sub: "set ?r \<subseteq> set ?c"
    using set_take_subset [of 5 ?d] by (simp add: r removeDuplicates_set)
  have terms: "\<forall>t \<in> set ?r. length t > 2 \<and> t \<notin> set stopWords
                 \<and> (\<forall>c \<in> set t. isWord c \<and> c \<notin> set upperChars)"
  proof
    fix t assume "t \<in> set ?r"
    with sub have "t \<in> set ?c" by blast
    then have "t \<in> set (messagePieces m)" and "length t > 2" and "t \<notin> set stopWords"
      by (auto simp: candidateTerms_def)
    then show "length t > 2 \<and> t \<notin> set stopWords
                 \<and> (\<forall>c \<in> set t. isWord c \<and> c \<notin> set upperChars)"
      using messagePieces_chars by blast
  qed
  have sd: "sorted_wrt (\<lambda>a b. indexOf ?c a < indexOf ?c b) (take 5 ?d @ drop 5 ?d)"
    using removeDuplicates_order [of ?c] by simp
  then have ord: "sorted_wrt (\<lambda>a b. indexOf ?c a < indexOf ?c b) ?r"
    unfolding sorted_wrt_append by (simp add: r)
  have rest: "\<forall>t \<in> set ?c. t \<notin> set ?r \<longrightarrow>
                length ?r = 5 \<and> (\<forall>u \<in> set ?r. indexOf ?c u < indexOf ?c t)"
  proof (intro ballI impI)
    fix t assume "t \<in> set ?c" and nr: "t \<notin> set ?r"
    then have "t \<in> set (take 5 ?d @ drop 5 ?d)"
      by (simp add: removeDuplicates_set)
    with nr have dr: "t \<in> set (drop 5 ?d)"
      unfolding set_append by (simp add: r)
    then have "drop 5 ?d \<noteq> []" by auto
    then have l5: "length ?r = 5" by (simp add: r)
    from sd dr have "\<forall>u \<in> set ?r. indexOf ?c u < indexOf ?c t"
      unfolding sorted_wrt_append by (simp add: r)
    with l5 show "length ?r = 5 \<and> (\<forall>u \<in> set ?r. indexOf ?c u < indexOf ?c t)"
      by simp
  qed
  have ex: "extractKeyTerms ''NullPointerException: the request to user-service returned null''
              = [''nullpointerexception'', ''request'', ''user'', ''service'', ''returned'']"
    by code_simp
  from len dist terms ord rest ex show ?thesis by blast
qed

theorem extractKeyTerms_terms_witness:
  "''request'' \<in> set (extractKeyTerms ''the request to the server; the Request failed'')
   \<and> length ''request'' > 2 \<and> ''request'' \<notin> set stopWords
   \<and> CHR ''q'' \<in> set ''request'' \<and> isWord (CHR ''q'') \<and> CHR ''q'' \<notin> set upperChars
   \<and> extractKeyTerms ''the request to the server; the Request failed''
       = [''request'', ''server'', ''failed'']
   \<and> ''a1_b'' \<in> set (candidateTerms ''x1 y2z a1_b c3d e4f g5h i6j a1_b k7l'')
   \<and> ''k7l'' \<in> set (candidateTerms ''x1 y2z a1_b c3d e4f g5h i6j a1_b k7l'')
   \<and> ''k7l'' \<notin> set (extractKeyTerms ''x1 y2z a1_b c3d e4f g5h i6j a1_b k7l'')
   \<and> length (extractKeyTerms ''x1 y2z a1_b c3d e4f g5h i6j a1_b k7l'') = 5
   \<and> ''g5h'' \<in> set (extractKeyTerms ''x1 y2z a1_b c3d e4f g5h i6j a1_b k7l'')
   \<and> indexOf (candidateTerms ''x1 y2z a1_b c3d e4f g5h i6j a1_b k7l'') ''g5h''
       < indexOf (candidateTerms ''x1 y2z a1_b c3d e4f g5h i6j a1_b k7l'') ''k7l''"
proof -
  have a: "extractKeyTerms ''the request to the server; the Request failed''
             = [''request'', ''server'', ''failed'']"
    by code_simp
  have b: "extractKeyTerms ''x1 y2z a1_b c3d e4f g5h i6j a1_b k7l''
             = [''y2z'', ''a1_b'', ''c3d'', ''e4f'', ''g5h'']"
    by code_simp
  have c: "candidateTerms ''x1 y2z a1_b c3d e4f g5h i6j a1_b k7l''
             = [''y2z'', ''a1_b'', ''c3d'', ''e4f'', ''g5h'', ''i6j'', ''a1_b'', ''k7l'']"
    by code_simp
  have q: "isWord (CHR ''q'')" by code_simp
  from extractKeyTerms_terms [of "''the request to the server; the Request failed''"]
       extractKeyTerms_terms [of "''x1 y2z a1_b c3d e4f g5h i6j a1_b k7l''"]
  show ?thesis
    by (simp add: a b c q stopWords_def upperChars_def)
qed

section \<open>Properties of the merge of a smart search\<close>

lemma addItem_map_of:
  "map_of (addItem acc x) k =
     (case map_of acc k of Some v \<Rightarrow> Some v | None \<Rightarrow> if res_id x = k then Some x else None)"
  by (auto simp: addItem_def map_add_def split: option.splits)

lemma foldl_addItem_map_of:
  "map_of (foldl addItem acc items) k =
     (case map_of acc k of Some v \<Rightarrow> Some v | None \<Rightarrow> find (\<lambda>x. res_id x = k) items)"
  by (induction items arbitrary: acc) (auto simp: addItem_map_of split: option.splits)

lemma addItem_keys:
  "map fst (addItem acc x)
     = map fst acc @ (if res_id x \<in> set (map fst acc) then [] else [res_id x])"
  by (auto simp: addItem_def map_of_eq_None_iff image_iff)

lemma foldl_addItem_distinct:
  "distinct (map fst acc) \<Longrightarrow> distinct (map fst (foldl addItem acc items))"
  by (induction items arbitrary: acc) (simp_all add: addItem_keys)

lemma addItem_ids:
  "\<forall>p \<in> set acc. res_id (snd p) = fst p \<Longrightarrow>
   \<forall>p \<in> set (addItem acc x). res_id (snd p) = fst p"
  by (auto simp: addItem_def)

lemma foldl_addItem_ids:
  "\<forall>p \<in> set acc. res_id (snd p) = fst p \<Longrightarrow>
   \<forall>p \<in> set (foldl addItem acc items). res_id (snd p) = fst p"
proof (induction items arbitrary: acc)
  case Nil
  then show ?case by simp
next
  case (Cons x xs)
  from Cons.IH [OF addItem_ids [OF Cons.prems]] show ?case by simp
qed

lemma addItem_key_set: "fst ` set (addItem acc x) = insert (res_id x) (fst ` set acc)"
  by (auto simp: addItem_def map_of_eq_None_iff image_iff)

lemma foldl_addItem_keys:
  "fst ` set (foldl addItem acc items) = fst ` set acc \<union> res_id ` set items"
  by (induction items arbitrary: acc) (simp_all add: addItem_key_set)

lemma foldl_foldl_concat:
  "foldl (\<lambda>combined val. foldl addItem combined val) acc vals = foldl addItem acc (concat vals)"
  by (induction vals arbitrary: acc) simp_all

lemma combineResults_alt:
  "combineResults allResults = foldl addItem [] (concat (fulfilled allResults))"
  by (simp add: combineResults_def foldl_foldl_concat)

text \<open>
  C5. Whatever the outcomes of the searches of a smart search are, in the order of the
  list of strategies, the merged result holds no id twice; every record in it is the
  first record with its id among the values of the fulfilled searches, read in the
  order of the strategies; it has at most \<open>limit\<close> records; and an id that some
  fulfilled search returned is missing from it only when the limit has cut it off.
\<close>

theorem smartSearchResults_merge:
  "distinct (map res_id (smartSearchResults allResults (Some n)))
   \<and> length (smartSearchResults allResults (Some n)) \<le> n
   \<and> (\<forall>r \<in> set (smartSearchResults allResults (Some n)).
         find (\<lambda>x. res_id x = res_id r) (concat (fulfilled allResults)) = Some r)
   \<and> (\<forall>x \<in> set (concat (fulfilled allResults)).
         res_id x \<notin> res_id ` set (smartSearchResults allResults (Some n)) \<longrightarrow>
         length (smartSearchResults allResults (Some n)) = n)"
proof -
  let ?items = "concat (fulfilled allResults)"
  let ?c = "combineResults allResults"
  let ?m = "map snd ?c"
  let ?out = "smartSearchResults allResults (Some n)"
  have out: "?out = take n ?m" by (simp add: smartSearchResults_def sliceTo_def)
  have dk: "distinct (map fst ?c)"
    using foldl_addItem_distinct [of "[]" ?items] by (simp add: combineResults_alt)
  have ids: "\<forall>p \<in> set ?c. res_id (snd p) = fst p"
    using foldl_addItem_ids [of "[]" ?items] by (simp add: combineResults_alt)
  then have keys: "map res_id ?m = map fst ?c" by simp
  have "map res_id ?out = take n (map res_id ?m)"
    by (simp only: out take_map)
  then have d: "distinct (map res_id ?out)"
    using dk by (simp only: keys distinct_take)
  have l: "length ?out \<le> n" by (simp add: out)
  have first: "\<forall>r \<in> set ?out. find (\<lambda>x. res_id x = res_id r) ?items = Some r"
  proof
    fix r assume "r \<in> set ?out"
    then have "r \<in> set ?m" by (auto simp: out dest: in_set_takeD)
    then obtain k where "(k, r) \<in> set ?c" by auto
    with ids have "(res_id r, r) \<in> set ?c" by fastforce
    with dk have "map_of ?c (res_id r) = Some r" by simp
    then show "find (\<lambda>x. res_id x = res_id r) ?items = Some r"
      by (simp add: combineResults_alt foldl_addItem_map_of)
  qed
  have trunc: "\<forall>x \<in> set ?items. res_id x \<notin> res_id ` set ?out \<longrightarrow> length ?out = n"
  proof (intro ballI impI)
    fix x assume x: "x \<in> set ?items" and nx: "res_id x \<notin> res_id ` set ?out"
    from x have "res_id x \<in> fst ` set ?c"
      using foldl_addItem_keys [of "[]" ?items] by (simp add: combineResults_alt)
    then have "res_id x \<in> set (map fst ?c)" by simp
    then have "res_id x \<in> set (map res_id ?m)" by (simp only: keys)
    then have mem: "res_id x \<in> res_id ` set ?m" by (simp only: set_map)
    have "?out \<noteq> ?m"
    proof
      assume eq: "?out = ?m"
      from nx mem eq show False by metis
    qed
    then have "n < length ?m" by (auto simp: out)
    then show "length ?out = n" by (simp add: out)
  qed
  from d l first trunc show ?thesis by blast
qed

theorem smartSearchResults_merge_witness:
  "smartSearchResults sampleOutcomes (Some 2)
     = [sampleResult ''doc-1'' ''timeout'', sampleResult ''doc-2'' ''refused'']
   \<and> smartSearchResults sampleOutcomes (Some 5)
     = [sampleResult ''doc-1'' ''timeout'', sampleResult ''doc-2'' ''refused'',
        sampleResult ''doc-3'' ''reset'']
   \<and> sampleResult ''doc-2'' ''refused'' \<in> set (smartSearchResults sampleOutcomes (Some 2))
   \<and> find (\<lambda>x. res_id x = res_id (sampleResult ''doc-2'' ''refused''))
        (concat (fulfilled sampleOutcomes)) = Some (sampleResult ''doc-2'' ''refused'')
   \<and> sampleResult ''doc-3'' ''reset'' \<in> set (concat (fulfilled sampleOutcomes))
   \<and> res_id (sampleResult ''doc-3'' ''reset'')
       \<notin> res_id ` set (smartSearchResults sampleOutcomes (Some 2))
   \<and> length (smartSearchResults sampleOutcomes (Some 2)) = 2
   \<and> distinct (map res_id (smartSearchResults sampleOutcomes (Some 2)))"
proof -
  have a: "smartSearchResults sampleOutcomes (Some 2)
     = [sampleResult ''doc-1'' ''timeout'', sampleResult ''doc-2'' ''refused'']"
    by code_simp
  have b: "smartSearchResults sampleOutcomes (Some 5)
     = [sampleResult ''doc-1'' ''timeout'', sampleResult ''doc-2'' ''refused'',
        sampleResult ''doc-3'' ''reset'']"
    by code_simp
  have c: "sampleResult ''doc-3'' ''reset'' \<in> set (concat (fulfilled sampleOutcomes))"
    by (simp add: fulfilled_def sampleOutcomes_def)
  have d: "res_id (sampleResult ''doc-3'' ''reset'')
       \<notin> res_id ` set (smartSearchResults sampleOutcomes (Some 2))"
    by (simp add: a sampleResult_def exceptionResult_def sampleHit_def)
  have e: "sampleResult ''doc-2'' ''refused'' \<in> set (smartSearchResults sampleOutcomes (Some 2))"
    by (simp add: a)
  from smartSearchResults_merge [of sampleOutcomes 2] c d e a b show ?thesis
    by blast
qed

lemma fulfilled_failed:
  "fulfilled (map (\<lambda>r. case r of Inl e \<Rightarrow> Inr [] | Inr v \<Rightarrow> Inr v) allResults)
     = map (\<lambda>r. case r of Inl e \<Rightarrow> [] | Inr v \<Rightarrow> v) allResults"
  by (induction allResults) (auto simp: fulfilled_def split: sum.splits)

lemma concat_fulfilled:
  "concat (fulfilled allResults) = concat (map (\<lambda>r. case r of Inl e \<Rightarrow> [] | Inr v \<Rightarrow> v) allResults)"
  by (induction allResults) (auto simp: fulfilled_def split: sum.splits)

lemma combineResults_failed:
  "combineResults (map (\<lambda>r. case r of Inl e \<Rightarrow> Inr [] | Inr v \<Rightarrow> Inr v) allResults)
     = combineResults allResults"
  by (simp add: combineResults_alt fulfilled_failed concat_fulfilled)

lemma combineResults_all_failed:
  "\<forall>r \<in> set allResults. isl r \<Longrightarrow> combineResults allResults = []"
proof -
  assume "\<forall>r \<in> set allResults. isl r"
  then have "fulfilled allResults = []"
    by (induction allResults) (auto simp: fulfilled_def split: sum.splits)
  then show ?thesis by (simp add: combineResults_def)
qed

lemma failingStore_search: "isl (snd (searchExceptions config failingStore now s tid filters))"
  by (auto simp: searchExceptions_def client_search_def failingStore_def Let_def
           split: sum.splits prod.splits)

lemma failingStore_runSearches:
  "\<forall>r \<in> set (snd (runSearches config failingStore now s tid params ms)). isl r"
proof (induction ms arbitrary: s)
  case Nil
  then show ?case by simp
next
  case (Cons m ms)
  obtain s1 outcome where a:
    "searchExceptions config failingStore now s tid (params\<lparr>message := Some m\<rparr>) = (s1, outcome)"
    by (cases "searchExceptions config failingStore now s tid (params\<lparr>message := Some m\<rparr>)")
  obtain s2 outcomes where b:
    "runSearches config failingStore now s1 tid params ms = (s2, outcomes)"
    by (cases "runSearches config failingStore now s1 tid params ms")
  from a failingStore_search [of config now s tid "params\<lparr>message := Some m\<rparr>"]
  have "isl outcome" by simp
  moreover from b Cons.IH [of s1] have "\<forall>r \<in> set outcomes. isl r" by simp
  ultimately show ?case using a b by simp
qed

text \<open>
  C6. A smart search (the tenant is known, the operation is allowed, \<open>smartSearch\<close> is
  set and a message or a query is given) always answers with a result, never with an
  error: the result is the merge of the outcomes of its searches, a failed search
  counts like a search that found nothing, and when every search has failed the
  result is the empty list.
\<close>

theorem smart_search_tolerates_failures:
  assumes "getTeamConfig config tid = Inr teamConfig"
      and "\<not> operationBlocked teamConfig ''search_exceptions''"
      and "smartSearch params = Some True"
      and "truthy (orElse (message params) (query params))"
  shows "\<exists>s allResults.
           runSearches config store now newService tid params
             (smartSearchMessages (the (orElse (message params) (query params)))) = (s, allResults)
           \<and> searchExceptionsHandler config store now tid params
               = (s, Inr (searchResponse tid teamConfig (environment params)
                            (smartSearchResults allResults (limit params))))
           \<and> smartSearchResults allResults (limit params)
               = smartSearchResults
                   (map (\<lambda>r. case r of Inl e \<Rightarrow> Inr [] | Inr v \<Rightarrow> Inr v) allResults)
                   (limit params)
           \<and> ((\<forall>r \<in> set allResults. isl r) \<longrightarrow>
                smartSearchResults allResults (limit params) = [])"
proof -
  obtain s allResults where run:
    "runSearches config store now newService tid params
       (smartSearchMessages (the (orElse (message params) (query params)))) = (s, allResults)"
    by (cases "runSearches config store now newService tid params
       (smartSearchMessages (the (orElse (message params) (query params))))") 
  have h: "searchExceptionsHandler config store now tid params
               = (s, Inr (searchResponse tid teamConfig (environment params)
                            (smartSearchResults allResults (limit params))))"
    using assms run by (simp add: searchExceptionsHandler_def Let_def)
  have f: "smartSearchResults allResults (limit params)
               = smartSearchResults
                   (map (\<lambda>r. case r of Inl e \<Rightarrow> Inr [] | Inr v \<Rightarrow> Inr v) allResults)
                   (limit params)"
    by (simp add: smartSearchResults_def combineResults_failed)
  have e: "(\<forall>r \<in> set allResults. isl r) \<longrightarrow>
                smartSearchResults allResults (limit params) = []"
    by (auto simp: smartSearchResults_def combineResults_all_failed sliceTo_def split: option.splits)
  from run h f e show ?thesis by blast
qed

theorem smart_search_tolerates_failures_witness:
  "getTeamConfig exampleConfig ''team-gamma'' = Inr teamGamma
   \<and> \<not> operationBlocked teamGamma ''search_exceptions''
   \<and> smartSearch timeoutQuery = Some True
   \<and> truthy (orElse (message timeoutQuery) (query timeoutQuery))
   \<and> matching failingStore (createClient (apiKeyEnvironment ''https://gamma-prod-es.company.com''
                                            ''prod-api-key-for-gamma''))
        (exceptionsSearchParams teamGamma 1700000000000 timeoutQuery)
       = Inl ''connect ECONNREFUSED''
   \<and> snd (searchExceptionsHandler exampleConfig failingStore 1700000000000 ''team-gamma''
            timeoutQuery)
       = Inr \<lparr>resp_teamId = ''team-gamma'', resp_environment = Some ''production'',
              resp_totalResults = 0, resp_results = []\<rparr>"
proof -
  let ?run = "runSearches exampleConfig failingStore 1700000000000 newService ''team-gamma''
                timeoutQuery
                (smartSearchMessages (the (orElse (message timeoutQuery) (query timeoutQuery))))"
  have h1: "getTeamConfig exampleConfig ''team-gamma'' = Inr teamGamma" by code_simp
  have h2: "\<not> operationBlocked teamGamma ''search_exceptions''" by code_simp
  have h3: "smartSearch timeoutQuery = Some True" by code_simp
  have h4: "truthy (orElse (message timeoutQuery) (query timeoutQuery))" by code_simp
  have f: "matching failingStore (createClient (apiKeyEnvironment ''https://gamma-prod-es.company.com''
                                            ''prod-api-key-for-gamma''))
        (exceptionsSearchParams teamGamma 1700000000000 timeoutQuery)
       = Inl ''connect ECONNREFUSED''"
    by (simp add: failingStore_def)
  have env: "searchResponse ''team-gamma'' teamGamma (environment timeoutQuery) []
       = \<lparr>resp_teamId = ''team-gamma'', resp_environment = Some ''production'',
              resp_totalResults = 0, resp_results = []\<rparr>"
    by code_simp
  from smart_search_tolerates_failures [OF h1 h2 h3 h4, of failingStore 1700000000000]
  obtain s allResults where run: "?run = (s, allResults)"
    and h: "searchExceptionsHandler exampleConfig failingStore 1700000000000 ''team-gamma''
              timeoutQuery
            = (s, Inr (searchResponse ''team-gamma'' teamGamma (environment timeoutQuery)
                         (smartSearchResults allResults (limit timeoutQuery))))"
    and e: "(\<forall>r \<in> set allResults. isl r) \<longrightarrow>
              smartSearchResults allResults (limit timeoutQuery) = []"
    by blast
  from run failingStore_runSearches [of exampleConfig 1700000000000 newService "''team-gamma''"
      timeoutQuery "smartSearchMessages (the (orElse (message timeoutQuery) (query timeoutQuery)))"]
  have "\<forall>r \<in> set allResults. isl r" by simp
  with e have "smartSearchResults allResults (limit timeoutQuery) = []" by blast
  with h env have "snd (searchExceptionsHandler exampleConfig failingStore 1700000000000
                          ''team-gamma'' timeoutQuery)
       = Inr \<lparr>resp_teamId = ''team-gamma'', resp_environment = Some ''production'',
              resp_totalResults = 0, resp_results = []\<rparr>"
    by simp
  with h1 h2 h3 h4 f show ?thesis by blast
qed

section \<open>Properties of the trends\<close>





lemma determineTrend_short: "length buckets < 2 \<Longrightarrow> determineTrend buckets = ''stable''"
  by (simp add: determineTrend_def)

lemma determineTrend_halves:
  assumes "2 \<le> length buckets"
      and "0 < sumCounts (take (length buckets div 2) buckets)"
  shows "determineTrend buckets
           = trendOf
               (((rat_of_nat (sumCounts (drop (length buckets div 2) buckets))
                    / rat_of_nat (length buckets - length buckets div 2))
                 - (rat_of_nat (sumCounts (take (length buckets div 2) buckets))
                    / rat_of_nat (length buckets div 2)))
                / (rat_of_nat (sumCounts (take (length buckets div 2) buckets))
                    / rat_of_nat (length buckets div 2)) * 100)"
proof -
  from assms(1) have h: "0 < length buckets div 2" "length buckets div 2 < length buckets"
    by simp_all
  then have m: "min (length buckets) (length buckets div 2) = length buckets div 2"
    by simp
  from h assms show ?thesis
    by (simp add: determineTrend_def Let_def jsDivide_def jsTimes_def jsGreater_def jsLess_def
          trendOf_def m)
qed

lemma determineTrend_empty_first_half:
  assumes "2 \<le> length buckets"
      and "sumCounts (take (length buckets div 2) buckets) = 0"
  shows "determineTrend buckets
           = (if 0 < sumCounts (drop (length buckets div 2) buckets)
              then ''increasing'' else ''stable'')"
proof -
  let ?k = "length buckets div 2"
  let ?g = "rat_of_nat (sumCounts (drop ?k buckets)) / rat_of_nat (length (drop ?k buckets))"
  from assms(1) have k: "0 < ?k" and n: "0 < length (drop ?k buckets)"
    by simp_all
  from k assms(1) have lt: "length (take ?k buckets) = ?k" by simp
  from assms(2) k lt have f: "jsDivide (rat_of_nat (sumCounts (take ?k buckets)))
                                (rat_of_nat (length (take ?k buckets))) = Finite 0"
    by (simp add: jsDivide_def)
  from n have g: "jsDivide (rat_of_nat (sumCounts (drop ?k buckets)))
                    (rat_of_nat (length (drop ?k buckets))) = Finite ?g"
    by (simp add: jsDivide_def)
  from n have pos: "0 < ?g \<longleftrightarrow> 0 < sumCounts (drop ?k buckets)"
    by (simp add: zero_less_divide_iff)
  from n have nonneg: "\<not> ?g < 0"
    by (simp add: not_less)
  have "determineTrend buckets
          = (let change = jsTimes (jsDivide (?g - 0) 0) 100
             in if jsGreater change 10 then ''increasing''
                else if jsLess change (- 10) then ''decreasing'' else ''stable'')"
    using assms(1) by (simp only: determineTrend_def Let_def f g) simp
  also have "\<dots> = (if 0 < sumCounts (drop ?k buckets) then ''increasing'' else ''stable'')"
    using pos nonneg
    by (simp add: Let_def jsDivide_def jsTimes_def jsGreater_def jsLess_def)
  finally show ?thesis .
qed

text \<open>
  C4. \<open>determineTrend\<close> divides by the average of the first half without the test
  \<open>firstHalfCount > 0\<close> that \<open>getServiceExceptionTrends\<close> makes. On a histogram of two
  hours with no document in the first and five in the second, the change is
  \<open>Infinity\<close> and the trend \<open>increasing\<close>, where the rule of
  \<open>getServiceExceptionTrends\<close> gives the change 0 and the trend \<open>stable\<close>.
\<close>

theorem determineTrend_zero_first_half:
  "determineTrend [\<lparr>key_as_string = ''10:00'', doc_count = 0\<rparr>,
                   \<lparr>key_as_string = ''11:00'', doc_count = 5\<rparr>] = ''increasing''
   \<and> trendOf (percentageChangeOf 0 5) = ''stable''"
  by (simp add: determineTrend_def sumCounts_def jsDivide_def jsTimes_def jsGreater_def
      trendOf_def percentageChangeOf_def)

section \<open>Properties of the time windows and the limits\<close>

lemma toInteger_of_int: "toInteger (of_int k) = k"
  by (simp add: toInteger_def)

lemma toInteger_minus_of_int: "toInteger (- of_int k) = - k"
  using toInteger_of_int [of "- k"] by simp

lemma subDays_of_int: "subDays date (of_int k) = date - k * 86400000"
  by (simp add: subDays_def addDays_def Let_def toInteger_of_int toInteger_minus_of_int)

lemma subDays_whole: "subDays date 1 = date - 86400000" "subDays date 7 = date - 604800000"
  using subDays_of_int [of date 1] subDays_of_int [of date 7] by simp_all

lemma subDays_fraction: "0 \<le> x \<Longrightarrow> x < 1 \<Longrightarrow> subDays date x = date"
proof -
  assume "0 \<le> x" and "x < 1"
  then have "\<lfloor>x\<rfloor> = 0" by linarith
  with \<open>0 \<le> x\<close> have "toInteger x = 0" by (simp add: toInteger_def)
  then show ?thesis by (simp add: subDays_def addDays_def Let_def toInteger_def)
qed

text \<open>
  C1. \<open>searchExceptions\<close> asks the store for \<open>maxSearchResults || 50\<close> documents and
  never reads the limit. The schema fills in the limit 20 when the caller gives none.
  For team-beta of the example configuration (\<open>maxSearchResults\<close> 25) and the limit 1,
  a search without text asks for 25 documents and returns the three the store holds.
\<close>

theorem searchExceptions_limit_ignored:
  "body_size (exceptionsSearchParams teamConfig now filters)
     = numberOr (maxSearchResults teamConfig) 50
   \<and> searchExceptionsSchema noParams
       = Some (noParams\<lparr>limit := Some 20, sortByFrequency := Some False,
                        smartSearch := Some True\<rparr>)
   \<and> searchExceptionsSchema (noParams\<lparr>limit := Some 1\<rparr>)
       = Some (noParams\<lparr>limit := Some 1, sortByFrequency := Some False,
                        smartSearch := Some True\<rparr>)
   \<and> map_option
         (\<lambda>(s, r). (callSizes s,
                     case r of Inl e \<Rightarrow> [] | Inr resp \<Rightarrow> map res_id (resp_results resp)))
         (searchExceptionsTool exampleConfig sampleStore 1700000000000 ''team-beta''
            (noParams\<lparr>limit := Some 1\<rparr>))
       = Some ([25], [''doc-1'', ''doc-2'', ''doc-3''])"
proof -
  have a: "body_size (exceptionsSearchParams teamConfig now filters)
     = numberOr (maxSearchResults teamConfig) 50"
    by (simp add: exceptionsSearchParams_def)
  have b: "searchExceptionsSchema noParams
       = Some (noParams\<lparr>limit := Some 20, sortByFrequency := Some False,
                        smartSearch := Some True\<rparr>)"
    by code_simp
  have c: "searchExceptionsSchema (noParams\<lparr>limit := Some 1\<rparr>)
       = Some (noParams\<lparr>limit := Some 1, sortByFrequency := Some False,
                        smartSearch := Some True\<rparr>)"
    by code_simp
  have d: "map_option
         (\<lambda>(s, r). (callSizes s,
                     case r of Inl e \<Rightarrow> [] | Inr resp \<Rightarrow> map res_id (resp_results resp)))
         (searchExceptionsTool exampleConfig sampleStore 1700000000000 ''team-beta''
            (noParams\<lparr>limit := Some 1\<rparr>))
       = Some ([25], [''doc-1'', ''doc-2'', ''doc-3''])"
    by code_simp
  from a b c d show ?thesis by (simp only: simp_thms)
qed

lemma timeRangeHours_unrecognized: "tf \<notin> set timeframeTokens \<Longrightarrow> timeRangeHours tf = 24"
  by (simp add: timeRangeHours_def timeframeTokens_def)

text \<open>
  C2. \<open>searchExceptions\<close> never reads the timeframe: without a time range its filter
  is the lower bound \<open>subDays(now, 1)\<close>, with no upper bound. With the token \<open>1h\<close> the
  window starts 24 hours before now, where the table of the other service methods
  gives the window from one hour before now to now. That table maps the five tokens
  to 1, 6, 12, 24 and 168 hours and any other token to 24.
\<close>

theorem searchExceptions_timeframe_ignored:
  "exceptionsTimeFilter now (filters\<lparr>timeRange := None, timeframe := tf\<rparr>)
     = Range (Formatted (now - 24 * 3600000)) None
   \<and> map timeRangeHours timeframeTokens = [1, 6, 12, 24, 168]
   \<and> timeRangeHours ''2w'' = 24
   \<and> timeframeFilter now ''1h'' = Range (Formatted (now - 3600000)) (Some (Formatted now))
   \<and> map_option (\<lambda>(s, r). callFilters s)
         (searchExceptionsTool exampleConfig sampleStore 1700000000000 ''team-beta''
            (noParams\<lparr>timeframe := Some ''1h''\<rparr>))
       = Some [[Range (Formatted 1699913600000) None]]"
proof -
  have a: "exceptionsTimeFilter now (filters\<lparr>timeRange := None, timeframe := tf\<rparr>)
     = Range (Formatted (now - 24 * 3600000)) None"
    by (simp add: exceptionsTimeFilter_def subDays_whole)
  have t: "map timeRangeHours timeframeTokens = [1, 6, 12, 24, 168]"
    by (simp add: timeRangeHours_def timeframeTokens_def)
  have u: "timeRangeHours ''2w'' = 24"
    by (simp add: timeRangeHours_def)
  have b: "timeframeFilter now ''1h'' = Range (Formatted (now - 3600000)) (Some (Formatted now))"
    by (simp add: timeframeFilter_def timeRangeHours_def)
  have c: "map_option (\<lambda>(s, r). callFilters s)
         (searchExceptionsTool exampleConfig sampleStore 1700000000000 ''team-beta''
            (noParams\<lparr>timeframe := Some ''1h''\<rparr>))
       = Some [[Range (Formatted 1699913600000) None]]"
    by code_simp
  from a t u b c show ?thesis by (simp only: simp_thms)
qed

text \<open>
  C3. Without a time range and a timeframe, exception search filters from 24 hours
  before now and aggregate analysis from 7 days before now, both without an upper
  bound. Log search filters from \<open>subDays(now, 0.04)\<close>, which is now itself, since
  \<open>subDays\<close> truncates 0.04 to 0 days; and 0.04 of a day would be 3456 seconds, not
  the 3600 of an hour.
\<close>

theorem default_time_windows:
  "exceptionsTimeFilter now (filters\<lparr>timeRange := None\<rparr>)
     = Range (Formatted (now - 24 * 3600000)) None
   \<and> analysisTimeFilter now (filters\<lparr>timeRange := None\<rparr>)
       = Range (Formatted (now - 7 * 24 * 3600000)) None
   \<and> logsTimeFilter now (filters\<lparr>timeRange := None\<rparr>) = Range (Formatted now) None
   \<and> subDays now (4 / 100) = now
   \<and> (4 / 100 :: rat) * 86400000 = 3456000
   \<and> callFilters (fst (searchLogsHandler exampleConfig sampleStore 1700000000000
                          ''team-gamma'' noParams))
       = [[Range (Formatted 1700000000000) None]]"
proof -
  have a: "exceptionsTimeFilter now (filters\<lparr>timeRange := None\<rparr>)
     = Range (Formatted (now - 24 * 3600000)) None"
    by (simp add: exceptionsTimeFilter_def subDays_whole)
  have b: "analysisTimeFilter now (filters\<lparr>timeRange := None\<rparr>)
       = Range (Formatted (now - 7 * 24 * 3600000)) None"
    by (simp add: analysisTimeFilter_def subDays_whole)
  have c: "subDays now (4 / 100) = now"
    by (simp add: subDays_fraction)
  then have d: "logsTimeFilter now (filters\<lparr>timeRange := None\<rparr>) = Range (Formatted now) None"
    by (simp add: logsTimeFilter_def)
  have e: "(4 / 100 :: rat) * 86400000 = 3456000" by simp
  have f: "callFilters (fst (searchLogsHandler exampleConfig sampleStore 1700000000000
                          ''team-gamma'' noParams))
       = [[Range (Formatted 1700000000000) None]]"
    by code_simp
  from a b c d e f show ?thesis by (simp only: simp_thms)
qed

section \<open>Properties of the tools\<close>

lemma unset_allowedOperations:
  "allowedOperations teamConfig = None \<Longrightarrow> \<not> operationBlocked teamConfig operation"
  by (simp add: operationBlocked_def)

lemma gated_tools:
  assumes "getTeamConfig config tid = Inr teamConfig"
  shows "operationBlocked teamConfig ''search_exceptions'' \<Longrightarrow>
           searchExceptionsHandler config store now tid sp
             = (newService, Inl (OperationNotAllowed ''search_exceptions'' tid))"
    and "operationBlocked teamConfig ''search_logs'' \<Longrightarrow>
           searchLogsHandler config store now tid lp
             = (newService, Inl (OperationNotAllowed ''search_logs'' tid))"
    and "operationBlocked teamConfig ''analyze_exception'' \<Longrightarrow>
           analyzeExceptionHandler config store now tid env msg tf
             = (newService, Inl (OperationNotAllowed ''analyze_exception'' tid))"
    and "operationBlocked teamConfig ''analyze_trends'' \<Longrightarrow>
           analyzeTrendsHandler config store now tid tp
             = (newService, Inl (OperationNotAllowed ''analyze_trends'' tid))"
  using assms
  by (simp_all add: searchExceptionsHandler_def searchLogsHandler_def
        analyzeExceptionHandler_def analyzeTrendsHandler_def)

lemma testConnection_never_refused:
  "getTeamConfig config tid = Inr teamConfig \<Longrightarrow>
     \<exists>s response. testConnectionHandler config store tid env = (s, Inr response)"
  by (simp add: testConnectionHandler_def split: prod.splits)

lemma runSearches_without_client:
  "getClient config s tid (environment params) = Inl e \<Longrightarrow>
     runSearches config store now s tid params ms = (s, map (\<lambda>m. Inl e) ms)"
proof (induction ms)
  case Nil
  then show ?case by simp
next
  case (Cons m ms)
  from Cons.prems
  have "searchExceptions config store now s tid (params\<lparr>message := Some m\<rparr>) = (s, Inl e)"
    by (auto simp: searchExceptions_def getClient_def split: sum.splits)
  with Cons show ?case by simp
qed

lemma smart_search_without_client:
  assumes "getTeamConfig config tid = Inr teamConfig"
      and "\<not> operationBlocked teamConfig ''search_exceptions''"
      and "smartSearch params = Some True"
      and "truthy (orElse (message params) (query params))"
      and "getClient config newService tid (environment params) = Inl e"
  shows "searchExceptionsHandler config store now tid params
           = (newService, Inr (searchResponse tid teamConfig (environment params) []))"
proof -
  have "\<forall>r \<in> set (map (\<lambda>m. Inl e :: Error + ElasticsearchSearchResult list) ms). isl r"
    for ms :: "string list"
    by simp
  then have "smartSearchResults (map (\<lambda>m. Inl e) ms) (limit params) = []" for ms :: "string list"
    using combineResults_all_failed
    by (simp add: smartSearchResults_def sliceTo_def split: option.splits)
  with assms show ?thesis
    by (simp add: searchExceptionsHandler_def Let_def runSearches_without_client)
qed

text \<open>
  C9. The handler of \<open>test_connection\<close> does not look at \<open>allowedOperations\<close>. Team-alpha
  of the example configuration allows three operations, \<open>test_connection\<close> not among
  them; its connection test is not refused: it reaches the store with one ping and
  answers that the connection works.
\<close>

theorem testConnection_not_gated:
  "operationBlocked teamAlpha ''test_connection''
   \<and> getTeamConfig exampleConfig ''team-alpha'' = Inr teamAlpha
   \<and> (\<lambda>(s, r). (length (calls s), r))
        (testConnectionHandler exampleConfig sampleStore ''team-alpha'' None)
       = (1, Inr \<lparr>conn_teamId = ''team-alpha'', conn_environment = Some ''production'',
                   conn_connected = True\<rparr>)"
  by code_simp


lemma getClient_error_state:
  "getClient config s tid env = Inl e \<Longrightarrow> getClient config s' tid env = Inl e"
  by (auto simp: getClient_def Let_def split: sum.splits option.splits if_splits)




end
